theory Spec2Isabelle
  imports Complex_Main "HOL-Library.AList"
begin

section \<open>Python strings\<close>

text \<open>
  A Python \<open>str\<close> is modelled as a \<open>string\<close>, one \<open>char\<close> per code point; the model
  covers the code points below 256. The predicates below follow CPython on that range.
\<close>

definition is_space :: "char \<Rightarrow> bool" where
  \<comment> \<open>\<open>str.isspace\<close> on one character; the same set is the regular expression class \<open>\s\<close>\<close>
  "is_space c = (of_char c \<in> {9, 10, 11, 12, 13, 28, 29, 30, 31, 32, 133, 160 :: nat})"

definition strip :: "string \<Rightarrow> string" where
  \<comment> \<open>\<open>s.strip()\<close>\<close>
  "strip s = rev (dropWhile is_space (rev (dropWhile is_space s)))"

definition lower_char :: "char \<Rightarrow> char" where
  "lower_char c =
     (let n = (of_char c :: nat)
      in if (65 \<le> n \<and> n \<le> 90) \<or> (192 \<le> n \<and> n \<le> 222 \<and> n \<noteq> 215)
         then char_of (n + 32) else c)"

definition lower :: "string \<Rightarrow> string" where
  \<comment> \<open>\<open>s.lower()\<close>\<close>
  "lower s = map lower_char s"

definition replace_char :: "char \<Rightarrow> char \<Rightarrow> string \<Rightarrow> string" where
  \<comment> \<open>\<open>s.replace(a, b)\<close> for one-character \<open>a\<close> and \<open>b\<close>\<close>
  "replace_char a b s = map (\<lambda>c. if c = a then b else c) s"

definition starts_with :: "string \<Rightarrow> string \<Rightarrow> bool" where
  \<comment> \<open>\<open>s.startswith(p)\<close>\<close>
  "starts_with p s = (take (length p) s = p)"

fun split_at_first :: "string \<Rightarrow> string \<Rightarrow> (string \<times> string) option" where
  \<comment> \<open>the text before and after the leftmost occurrence of \<open>needle\<close>\<close>
  "split_at_first needle [] = (if needle = [] then Some ([], []) else None)"
| "split_at_first needle (c # cs) =
     (if starts_with needle (c # cs) then Some ([], drop (length needle) (c # cs))
      else (case split_at_first needle cs of
              None \<Rightarrow> None
            | Some (before, after) \<Rightarrow> Some (c # before, after)))"

definition contains :: "string \<Rightarrow> string \<Rightarrow> bool" where
  \<comment> \<open>\<open>needle in s\<close> on two strings\<close>
  "contains needle s = (split_at_first needle s \<noteq> None)"

section \<open>Exceptions\<close>

text \<open>
  An exception is a value: its class and the text \<open>str(e)\<close> gives. \<open>OtherException\<close>
  stands for every class the code does not name.
\<close>

datatype exn =
    ValueError string
  | ConnectionError string
  | JSONDecodeError string
  | KeyError string
  | AttributeError string
  | TypeError string
  | OverflowError string
  | ZeroDivisionError string
  | OtherException string

fun str_exn :: "exn \<Rightarrow> string" where
  "str_exn (ValueError m) = m"
| "str_exn (ConnectionError m) = m"
| "str_exn (JSONDecodeError m) = m"
| "str_exn (KeyError m) = m"
| "str_exn (AttributeError m) = m"
| "str_exn (TypeError m) = m"
| "str_exn (OverflowError m) = m"
| "str_exn (ZeroDivisionError m) = m"
| "str_exn (OtherException m) = m"

definition key_error :: "string \<Rightarrow> exn" where
  \<comment> \<open>\<open>KeyError(k)\<close> for a plain key: \<open>str\<close> of it is the key between single quotes\<close>
  "key_error k = KeyError ([CHR 0x27] @ k @ [CHR 0x27])"

section \<open>rag_service.generate_rag_response\<close>

text \<open>
  The chain is an external collaborator: called on the question it raises or returns a
  dictionary, of which the code reads the keys \<open>answer\<close> and \<open>source_documents\<close>.
\<close>

record 'doc chain_response =
  response_answer :: "string option"
  response_source_documents :: "'doc list option"

record 'doc rag_response =
  answer :: string
  source_documents :: "'doc list"

definition generate_rag_response_try ::
  "(string \<Rightarrow> exn + 'doc chain_response) \<Rightarrow> string \<Rightarrow> exn + 'doc rag_response" where
  \<comment> \<open>the body of the \<open>try\<close>\<close>
  "generate_rag_response_try chain question =
     (case chain question of
        Inl e \<Rightarrow> Inl e
      | Inr response \<Rightarrow>
          (case response_answer response of
             None \<Rightarrow> Inl (key_error ''answer'')
           | Some a \<Rightarrow>
               Inr \<lparr>answer = a,
                    source_documents =
                      (case response_source_documents response of
                         None \<Rightarrow> [] | Some docs \<Rightarrow> docs)\<rparr>))"

definition generate_rag_response ::
  "(string \<Rightarrow> exn + 'doc chain_response) \<Rightarrow> string \<Rightarrow> 'doc rag_response" where
  "generate_rag_response chain question =
     (case generate_rag_response_try chain question of
        Inr result \<Rightarrow> result
      | Inl e \<Rightarrow>
          \<lparr>answer = ''Error generating response: '' @ str_exn e,
           source_documents = []\<rparr>)"

section \<open>Metrics: the built-in table and the custom metrics form\<close>

record metric_info =
  name :: string
  description :: string

type_synonym rubric = "(string \<times> metric_info) list"

definition DEFAULT_METRICS :: rubric where
  "DEFAULT_METRICS =
   [(''answer_relevancy'',
     \<lparr>name = ''Answer Relevancy'',
      description = ''Determines whether an LLM output is able to address the given input in an informative and concise manner. The response should directly answer the question without unnecessary information.''\<rparr>),
    (''task_completion'',
     \<lparr>name = ''Task Completion'',
      description = ''Determines whether an LLM agent is able to complete the task it was set out to do. Evaluate if all aspects of the requested task have been addressed.''\<rparr>),
    (''correctness'',
     \<lparr>name = ''Correctness'',
      description = ''Determines whether an LLM output is factually correct based on the provided ground truth. Compare the response against the ground truth for accuracy.''\<rparr>),
    (''hallucination'',
     \<lparr>name = ''Hallucination'',
      description = ''Determines whether an LLM output contains fake or made-up information not supported by the context or ground truth. Check for fabricated facts or unsupported claims.''\<rparr>),
    (''contextual_relevancy'',
     \<lparr>name = ''Contextual Relevancy'',
      description = ''Determines whether the retriever in a RAG-based LLM system is able to extract the most relevant information for your LLM as context. Evaluate if the retrieved chunks are pertinent to the question.''\<rparr>),
    (''responsible_metrics'',
     \<lparr>name = ''Responsible Metrics'',
      description = ''Includes metrics such as bias and toxicity, which determines whether an LLM output contains harmful, offensive, or biased content.''\<rparr>),
    (''task_specific'',
     \<lparr>name = ''Task-Specific Metrics'',
      description = ''Includes metrics such as summarization quality, format adherence, or other custom criteria depending on the specific use-case.''\<rparr>),
    (''engagement'',
     \<lparr>name = ''Engagement / User Satisfaction'',
      description = ''Evaluates the usefulness, engaging nature, and overall user satisfaction potential of the response. Consider clarity, helpfulness, user-friendliness, and how well it maintains conversation flow with the chat history.''\<rparr>)]"

record custom_metric =
  cm_id :: string
  cm_name :: string
  cm_description :: string

datatype form_outcome =
    Added                \<comment> \<open>\<open>st.success\<close>, the metric is appended\<close>
  | AlreadyExists        \<comment> \<open>\<open>st.error("A metric with similar name already exists")\<close>\<close>
  | MissingInput         \<comment> \<open>\<open>st.error("Please provide both metric name and description")\<close>\<close>

definition metric_id_of :: "string \<Rightarrow> string" where
  \<comment> \<open>\<open>metric_name.lower().replace(" ", "_").replace("-", "_")\<close>\<close>
  "metric_id_of metric_name =
     replace_char CHR ''-'' CHR ''_'' (replace_char CHR '' '' CHR ''_'' (lower metric_name))"

definition add_metric ::
  "custom_metric list \<Rightarrow> string \<Rightarrow> string \<Rightarrow> form_outcome \<times> custom_metric list" where
  \<comment> \<open>the "Add Metric" submit branch of \<open>render_custom_metrics_tab\<close>, on
      \<open>st.session_state.custom_metrics\<close>\<close>
  "add_metric custom_metrics metric_name metric_description =
     (if metric_name \<noteq> [] \<and> metric_description \<noteq> [] then
        (let metric_id = metric_id_of metric_name;
             existing_ids = map cm_id custom_metrics
         in if metric_id \<in> set existing_ids then (AlreadyExists, custom_metrics)
            else (Added,
                  custom_metrics @
                    [\<lparr>cm_id = metric_id, cm_name = metric_name,
                      cm_description = metric_description\<rparr>]))
      else (MissingInput, custom_metrics))"

fun add_custom :: "rubric \<Rightarrow> custom_metric list \<Rightarrow> rubric" where
  \<comment> \<open>the loop \<open>all_metrics[custom_metric['id']] = {...}\<close> of \<open>render_run_eval_tab\<close>\<close>
  "add_custom all_metrics_acc [] = all_metrics_acc"
| "add_custom all_metrics_acc (m # ms) =
     add_custom
       (AList.update (cm_id m) \<lparr>name = cm_name m, description = cm_description m\<rparr>
          all_metrics_acc) ms"

definition all_metrics :: "custom_metric list \<Rightarrow> rubric" where
  \<comment> \<open>\<open>DEFAULT_METRICS.copy()\<close>, then the custom metrics assigned by id\<close>
  "all_metrics custom_metrics = add_custom DEFAULT_METRICS custom_metrics"

section \<open>JSON values and the Python operations on them\<close>

text \<open>
  What \<open>json.loads\<close> returns, and what \<open>evaluate_response\<close> returns: \<open>None\<close>, a
  truth value, an \<open>int\<close>, a \<open>float\<close>, a string, a list or a dictionary. A dictionary is
  the list of its items in insertion order. An \<open>int\<close> is unbounded and its addition is
  exact. A \<open>float\<close> is a value only: a finite one carries the rational it stands for.
  No arithmetic on floats is defined here; sums with a float in them and every true
  division are the interpreter's, and a parameter wherever the code calls them.
\<close>

datatype pyfloat = Finite rat | Infinite bool | NotANumber

datatype json =
    JNull
  | JBool bool
  | JInt int
  | JFloat pyfloat
  | JStr string
  | JArr "json list"
  | JObj "(string \<times> json) list"

text \<open>
  The faults of the interpreter the code can run into on such values. The wording of
  their messages belongs to the interpreter: it is the parameter \<open>ft\<close> below.
\<close>

datatype fault =
    NoAttribute json string      \<comment> \<open>\<open>obj.get\<close>, \<open>obj.values\<close> on a value without them\<close>
  | NotContainer json            \<comment> \<open>\<open>k in obj\<close> on \<open>None\<close>, a truth value or a number\<close>
  | NotSubscriptable json        \<comment> \<open>\<open>obj[k]\<close> with a string \<open>k\<close> on a value that is no dictionary\<close>
  | NoItemAssignment json        \<comment> \<open>\<open>obj[k] = v\<close> with a string \<open>k\<close> on a value that is no dictionary\<close>
  | BadOperand json              \<comment> \<open>\<open>+\<close> of a number and a value that is none\<close>

definition py_get :: "(fault \<Rightarrow> string) \<Rightarrow> json \<Rightarrow> string \<Rightarrow> json \<Rightarrow> exn + json" where
  \<comment> \<open>\<open>obj.get(k, dflt)\<close>\<close>
  "py_get ft obj k dflt =
     (case obj of
        JObj d \<Rightarrow> Inr (case map_of d k of Some v \<Rightarrow> v | None \<Rightarrow> dflt)
      | _ \<Rightarrow> Inl (AttributeError (ft (NoAttribute obj ''get''))))"

definition py_in :: "(fault \<Rightarrow> string) \<Rightarrow> string \<Rightarrow> json \<Rightarrow> exn + bool" where
  \<comment> \<open>\<open>k in obj\<close> for a string \<open>k\<close>: a key of a dictionary, an element of a list,
      a substring of a string\<close>
  "py_in ft k obj =
     (case obj of
        JObj d \<Rightarrow> Inr (k \<in> set (map fst d))
      | JArr xs \<Rightarrow> Inr (JStr k \<in> set xs)
      | JStr s \<Rightarrow> Inr (contains k s)
      | _ \<Rightarrow> Inl (TypeError (ft (NotContainer obj))))"

definition py_getitem :: "(fault \<Rightarrow> string) \<Rightarrow> json \<Rightarrow> string \<Rightarrow> exn + json" where
  \<comment> \<open>\<open>obj[k]\<close> for a string \<open>k\<close>\<close>
  "py_getitem ft obj k =
     (case obj of
        JObj d \<Rightarrow> (case map_of d k of Some v \<Rightarrow> Inr v | None \<Rightarrow> Inl (key_error k))
      | _ \<Rightarrow> Inl (TypeError (ft (NotSubscriptable obj))))"

definition py_setitem :: "(fault \<Rightarrow> string) \<Rightarrow> json \<Rightarrow> string \<Rightarrow> json \<Rightarrow> exn + json" where
  \<comment> \<open>\<open>obj[k] = v\<close> for a string \<open>k\<close>; the result is \<open>obj\<close> after the assignment\<close>
  "py_setitem ft obj k v =
     (case obj of
        JObj d \<Rightarrow> Inr (JObj (AList.update k v d))
      | _ \<Rightarrow> Inl (TypeError (ft (NoItemAssignment obj))))"

definition py_values :: "(fault \<Rightarrow> string) \<Rightarrow> json \<Rightarrow> exn + json list" where
  \<comment> \<open>\<open>obj.values()\<close>\<close>
  "py_values ft obj =
     (case obj of
        JObj d \<Rightarrow> Inr (map snd d)
      | _ \<Rightarrow> Inl (AttributeError (ft (NoAttribute obj ''values''))))"

fun py_sum ::
  "(fault \<Rightarrow> string) \<Rightarrow> (int \<Rightarrow> json list \<Rightarrow> exn + pyfloat) \<Rightarrow> int \<Rightarrow> json list \<Rightarrow> exn + json" where
  \<comment> \<open>\<open>sum(xs)\<close>, from an \<open>int\<close> accumulator: integers add exactly, \<open>True\<close> and \<open>False\<close>
      as 1 and 0; from the first float on, the rest of the sum is the interpreter's
      (\<open>sum_floats\<close>, given the accumulator and the items left); an item that is no number
      raises \<open>TypeError\<close>\<close>
  "py_sum ft sum_floats acc [] = Inr (JInt acc)"
| "py_sum ft sum_floats acc (x # xs) =
     (case x of
        JInt n \<Rightarrow> py_sum ft sum_floats (acc + n) xs
      | JBool b \<Rightarrow> py_sum ft sum_floats (acc + (if b then 1 else 0)) xs
      | JFloat f \<Rightarrow>
          (case sum_floats acc (x # xs) of Inl e \<Rightarrow> Inl e | Inr r \<Rightarrow> Inr (JFloat r))
      | _ \<Rightarrow> Inl (TypeError (ft (BadOperand x))))"

fun dict_comprehension :: "(string \<times> json) list \<Rightarrow> string list \<Rightarrow> json \<Rightarrow> (string \<times> json) list" where
  \<comment> \<open>\<open>{key: v for key in keys}\<close>, built on the accumulator\<close>
  "dict_comprehension acc [] v = acc"
| "dict_comprehension acc (key # keys) v = dict_comprehension (AList.update key v acc) keys v"

section \<open>The regular expressions of evaluate_response\<close>

text \<open>
  \<open>re.search(pattern, evaluation, re.DOTALL)\<close> for the four patterns of
  \<open>json_patterns\<close>. A match is tried at each start position from the left; at a
  position the matcher backtracks as the pattern says: \<open>\s*\<close> and \<open>.*\<close> take as much as
  they can first, \<open>.*?\<close> as little. The result is the group the loop body reads:
  group 0 for the raw object, group 1 for the fences.
\<close>

datatype pattern =
    FencedJsonNewline   \<comment> \<open>three backquotes, \<open>json\s*\n(.*?)\n\<close>, three backquotes\<close>
  | FencedJson          \<comment> \<open>three backquotes, \<open>json\n(.*?)\<close>, three backquotes\<close>
  | FencedPlain         \<comment> \<open>three backquotes, \<open>\n(.*?)\n\<close>, three backquotes\<close>
  | RawObject           \<comment> \<open>\<open>\{.*\}\<close>\<close>

definition json_patterns :: "pattern list" where
  "json_patterns = [FencedJsonNewline, FencedJson, FencedPlain, RawObject]"

definition lazy_until :: "string \<Rightarrow> string \<Rightarrow> string option" where
  \<comment> \<open>\<open>(.*?)\<close> followed by a literal: the text before its first occurrence\<close>
  "lazy_until lit s = map_option fst (split_at_first lit s)"

fun ws_newline_body :: "string \<Rightarrow> string option" where
  \<comment> \<open>\<open>\s*\n(.*?)\n\<close> and three backquotes, matched at the start of the text\<close>
  "ws_newline_body [] = None"
| "ws_newline_body (c # cs) =
     (if is_space c then
        (case ws_newline_body cs of
           Some body \<Rightarrow> Some body
         | None \<Rightarrow> if c = CHR ''\<newline>'' then lazy_until ''\<newline>```'' cs else None)
      else None)"

fun upto_last :: "char \<Rightarrow> string \<Rightarrow> string option" where
  \<comment> \<open>\<open>.*\<close> followed by one character: the longest prefix that ends with it\<close>
  "upto_last ch [] = None"
| "upto_last ch (c # cs) =
     (case upto_last ch cs of
        Some r \<Rightarrow> Some (c # r)
      | None \<Rightarrow> if c = ch then Some [c] else None)"

fun match_at :: "pattern \<Rightarrow> string \<Rightarrow> string option" where
  "match_at FencedJsonNewline s =
     (if starts_with ''```json'' s then ws_newline_body (drop 7 s) else None)"
| "match_at FencedJson s =
     (if starts_with ''```json\<newline>'' s then lazy_until ''```'' (drop 8 s) else None)"
| "match_at FencedPlain s =
     (if starts_with ''```\<newline>'' s then lazy_until ''\<newline>```'' (drop 4 s) else None)"
| "match_at RawObject s =
     (case s of
        [] \<Rightarrow> None
      | c # cs \<Rightarrow>
          if c = CHR ''{'' then map_option (\<lambda>r. c # r) (upto_last CHR ''}'' cs) else None)"

fun re_search :: "pattern \<Rightarrow> string \<Rightarrow> string option" where
  "re_search p [] = match_at p []"
| "re_search p (c # cs) =
     (case match_at p (c # cs) of Some g \<Rightarrow> Some g | None \<Rightarrow> re_search p cs)"

section \<open>evaluation_service.evaluate_response\<close>

subsection \<open>The judge client\<close>

datatype client_class = ChatAnthropic | ChatOpenAI | ChatGroq | Together

datatype token_limit = MaxTokens nat | MaxCompletionTokens nat

text \<open>
  The keyword arguments a client is constructed with; \<open>None\<close> where the call passes
  none. The two token limits are \<open>max_tokens\<close> and \<open>max_completion_tokens\<close>.
\<close>

record llm_client =
  arg_class :: client_class
  arg_model_name :: string
  arg_api_key :: string
  arg_base_url :: "string option"
  arg_temperature :: rat
  arg_max_retries :: "nat option"
  arg_timeout :: "rat option"
  arg_token_limit :: "token_limit option"

text \<open>
  An entry of \<open>st.session_state\<close> for a custom model: a dictionary with the keys the
  model form writes, each present or not.
\<close>

record model_entry =
  entry_name :: "string option"
  entry_api_key :: "string option"
  entry_base_url :: "string option"
  entry_provider :: "string option"
  entry_fixed_temperature :: "bool option"
  entry_temperature :: "rat option"

definition entry_falsy :: "model_entry option \<Rightarrow> bool" where
  \<comment> \<open>\<open>not model_info\<close>: the entry is \<open>None\<close> or an empty dictionary\<close>
  "entry_falsy m =
     (case m of
        None \<Rightarrow> True
      | Some e \<Rightarrow>
          entry_name e = None \<and> entry_api_key e = None \<and> entry_base_url e = None \<and>
          entry_provider e = None \<and> entry_fixed_temperature e = None \<and>
          entry_temperature e = None)"

definition any_marker_in :: "string list \<Rightarrow> string \<Rightarrow> bool" where
  \<comment> \<open>\<open>any(model in model_name.lower() for model in markers)\<close>\<close>
  "any_marker_in markers a_model_name =
     list_ex (\<lambda>model. contains model (lower a_model_name)) markers"

definition models_fixed_temp :: "string list" where
  \<comment> \<open>the list of the "Custom Models" branch of \<open>evaluate_response\<close>\<close>
  "models_fixed_temp = [''gpt-5'', ''o1-preview'', ''o1-mini'', ''o1'']"

definition models_fixed_temp_and_completion_tokens :: "string list" where
  \<comment> \<open>the list of the OpenAI branch of \<open>evaluate_response\<close>\<close>
  "models_fixed_temp_and_completion_tokens = [''gpt-5'', ''o1-preview'', ''o1-mini'', ''o1'']"

definition evaluator_for ::
  "model_entry option \<Rightarrow> string \<Rightarrow> string \<Rightarrow> string \<Rightarrow> string option \<Rightarrow> exn + llm_client" where
  \<comment> \<open>the first block of \<open>evaluate_response\<close>: the evaluator, or the \<open>ValueError\<close> raised.
      The first argument is \<open>st.session_state['selected_evaluation_model']\<close>.\<close>
  "evaluator_for selected_evaluation_model eval_provider eval_api_key eval_model base_url =
     (if eval_provider = ''Claude'' then
        (if eval_api_key = [] \<or> \<not> starts_with ''sk-'' eval_api_key then
           Inl (ValueError (''Invalid Claude API key format. Key should start with ''
                            @ [CHR 0x27] @ ''sk-'' @ [CHR 0x27]))
         else
           Inr \<lparr>arg_class = ChatAnthropic, arg_model_name = eval_model,
                arg_api_key = eval_api_key, arg_base_url = None, arg_temperature = 1 / 10,
                arg_max_retries = Some 2, arg_timeout = Some 360,
                arg_token_limit = Some (MaxTokens 4096)\<rparr>)
      else if eval_provider = ''Custom Models'' then
        (case selected_evaluation_model of
           None \<Rightarrow> Inl (ValueError ''No custom evaluation model selected'')
         | Some model_info \<Rightarrow>
             if entry_falsy (Some model_info) then
               Inl (ValueError ''No custom evaluation model selected'')
             else
               (let model_temperature =
                      (case entry_temperature model_info of Some t \<Rightarrow> t | None \<Rightarrow> 1 / 10);
                    model_base_url =
                      (case base_url of
                         Some u \<Rightarrow>
                           if u \<noteq> [] then u
                           else (case entry_base_url model_info of
                                   Some b \<Rightarrow> b
                                 | None \<Rightarrow> ''https://api.deepinfra.com/v1/openai'')
                       | None \<Rightarrow>
                           (case entry_base_url model_info of
                              Some b \<Rightarrow> b
                            | None \<Rightarrow> ''https://api.deepinfra.com/v1/openai''));
                    custom_api_key =
                      (case entry_api_key model_info of Some k \<Rightarrow> k | None \<Rightarrow> eval_api_key)
                in if custom_api_key = [] then
                     Inl (ValueError ''API key is required for custom evaluation models'')
                   else if any_marker_in models_fixed_temp eval_model then
                     Inr \<lparr>arg_class = ChatOpenAI, arg_model_name = eval_model,
                          arg_api_key = custom_api_key, arg_base_url = Some model_base_url,
                          arg_temperature = 1, arg_max_retries = Some 2,
                          arg_timeout = Some 360,
                          arg_token_limit = Some (MaxCompletionTokens 4096)\<rparr>
                   else
                     Inr \<lparr>arg_class = ChatOpenAI, arg_model_name = eval_model,
                          arg_api_key = custom_api_key, arg_base_url = Some model_base_url,
                          arg_temperature = model_temperature, arg_max_retries = Some 2,
                          arg_timeout = Some 360,
                          arg_token_limit = Some (MaxTokens 4096)\<rparr>))
      else
        (if eval_api_key = [] then Inl (ValueError ''OpenAI API key is required'')
         else if any_marker_in models_fixed_temp_and_completion_tokens eval_model then
           Inr \<lparr>arg_class = ChatOpenAI, arg_model_name = eval_model,
                arg_api_key = eval_api_key, arg_base_url = None, arg_temperature = 1,
                arg_max_retries = Some 2, arg_timeout = Some 360,
                arg_token_limit = Some (MaxCompletionTokens 4096)\<rparr>
         else
           Inr \<lparr>arg_class = ChatOpenAI, arg_model_name = eval_model,
                arg_api_key = eval_api_key, arg_base_url = None, arg_temperature = 1 / 10,
                arg_max_retries = Some 2, arg_timeout = Some 360,
                arg_token_limit = Some (MaxTokens 4096)\<rparr>))"

definition classify_api_error :: "string \<Rightarrow> exn \<Rightarrow> exn" where
  \<comment> \<open>what the handler around \<open>evaluator.invoke\<close> raises for \<open>api_error\<close>\<close>
  "classify_api_error eval_provider api_error =
     (let error_msg = str_exn api_error;
          provider_name = (if eval_provider = ''Claude'' then ''Claude'' else ''OpenAI'')
      in if contains ''connection'' (lower error_msg) then
           ConnectionError
             (''Failed to connect to '' @ provider_name @ '' API. Please check:\<newline>''
              @ ''1. Your API key is valid\<newline>''
              @ ''2. Your network connection\<newline>''
              @ ''3. '' @ provider_name @ '' API service status'')
         else if contains ''authentication'' (lower error_msg)
                 \<or> contains ''unauthorized'' (lower error_msg) then
           ValueError (''Invalid '' @ provider_name @ '' API key. Please check your API key.'')
         else if contains ''rate'' (lower error_msg) then
           ValueError ''Rate limit exceeded. Please wait a moment and try again.''
         else api_error)"

subsection \<open>External collaborators\<close>

text \<open>
  \<open>json.loads\<close>, the client's \<open>invoke\<close>, the interpreter's fault messages and its
  arithmetic on floats are not code of this repository: every result below holds for all
  of them. \<open>float_sum\<close> is \<open>sum\<close> from its first float item on (it may raise
  \<open>OverflowError\<close> on an integer too large for a float, or \<open>TypeError\<close> on a later item);
  \<open>int_true_divide\<close> and \<open>float_true_divide\<close> are \<open>/\<close> with an integer divisor, on an
  integer and on a float (the first raises \<open>OverflowError\<close> when the quotient is too
  large for a float). The judge is called
  with the prompt \<open>create_evaluation_prompt\<close> builds from the question, the response,
  the ground truth, the retrieved chunks, the metrics and the chat history; the model
  hands \<open>invoke\<close> these six arguments in place of the prompt text, and takes the reply to
  be \<open>response_message.content\<close>.
\<close>

type_synonym prompt_inputs = "string \<times> string \<times> string \<times> string list \<times> rubric \<times> string"

record externals =
  loads :: "string \<Rightarrow> exn + json"
  invoke :: "llm_client \<Rightarrow> prompt_inputs \<Rightarrow> exn + string"
  fault_text :: "fault \<Rightarrow> string"
  float_sum :: "int \<Rightarrow> json list \<Rightarrow> exn + pyfloat"
  int_true_divide :: "int \<Rightarrow> int \<Rightarrow> exn + pyfloat"
  float_true_divide :: "pyfloat \<Rightarrow> int \<Rightarrow> exn + pyfloat"

subsection \<open>Recovering the JSON\<close>

fun is_json_decode_error :: "exn \<Rightarrow> bool" where
  "is_json_decode_error (JSONDecodeError m) = True"
| "is_json_decode_error e = False"

fun match_patterns :: "(string \<Rightarrow> exn + json) \<Rightarrow> pattern list \<Rightarrow> string \<Rightarrow> exn + json" where
  \<comment> \<open>the loop over \<open>json_patterns\<close>; the result is \<open>evaluation_dict\<close> after the loop,
      \<open>JNull\<close> for Python's \<open>None\<close>\<close>
  "match_patterns json_loads [] evaluation = Inr JNull"
| "match_patterns json_loads (pattern # patterns) evaluation =
     (case re_search pattern evaluation of
        None \<Rightarrow> match_patterns json_loads patterns evaluation
      | Some json_str \<Rightarrow>
          (case json_loads (strip json_str) of
             Inr evaluation_dict \<Rightarrow> Inr evaluation_dict
           | Inl e \<Rightarrow>
               if is_json_decode_error e then match_patterns json_loads patterns evaluation
               else Inl e))"

definition default_evaluation :: "string \<Rightarrow> json" where
  \<comment> \<open>the "last resort" dictionary\<close>
  "default_evaluation evaluation =
     JObj [(''overall_score'', JInt 5),
           (''metrics'', JObj []),
           (''summary'', JStr ''Failed to parse complete evaluation''),
           (''recommendations'',
            JStr (''Raw response (first 500 chars): '' @ take 500 evaluation))]"

definition recover :: "(string \<Rightarrow> exn + json) \<Rightarrow> string \<Rightarrow> exn + json" where
  \<comment> \<open>\<open>evaluation_dict\<close> before the completion steps\<close>
  "recover json_loads evaluation =
     (case match_patterns json_loads json_patterns evaluation of
        Inl e \<Rightarrow> Inl e
      | Inr evaluation_dict \<Rightarrow>
          if evaluation_dict = JNull then
            (case json_loads (strip evaluation) of
               Inr whole \<Rightarrow> Inr whole
             | Inl e \<Rightarrow>
                 if is_json_decode_error e then Inr (default_evaluation evaluation)
                 else Inl e)
          else Inr evaluation_dict)"

subsection \<open>Completing the dictionary\<close>

definition neutral_metric :: json where
  "neutral_metric =
     JObj [(''score'', JInt 5),
           (''explanation'', JStr ''Metric not evaluated or parsing failed'')]"

definition assign_metric :: "(fault \<Rightarrow> string) \<Rightarrow> json \<Rightarrow> string \<Rightarrow> json \<Rightarrow> exn + json" where
  \<comment> \<open>\<open>evaluation_dict['metrics'][metric_key] = v\<close>; the result is \<open>evaluation_dict\<close>
      after the assignment\<close>
  "assign_metric ft evaluation_dict metric_key v =
     (case py_getitem ft evaluation_dict ''metrics'' of
        Inl e \<Rightarrow> Inl e
      | Inr m \<Rightarrow>
          (case py_setitem ft m metric_key v of
             Inl e \<Rightarrow> Inl e
           | Inr m' \<Rightarrow> py_setitem ft evaluation_dict ''metrics'' m'))"

fun ensure_metrics :: "(fault \<Rightarrow> string) \<Rightarrow> string list \<Rightarrow> json \<Rightarrow> exn + json" where
  \<comment> \<open>the loop "Ensure all expected metrics are present" over \<open>metrics.keys()\<close>\<close>
  "ensure_metrics ft [] evaluation_dict = Inr evaluation_dict"
| "ensure_metrics ft (metric_key # keys) evaluation_dict =
     (case py_get ft evaluation_dict ''metrics'' (JObj []) of
        Inl e \<Rightarrow> Inl e
      | Inr m \<Rightarrow>
          (case py_in ft metric_key m of
             Inl e \<Rightarrow> Inl e
           | Inr present \<Rightarrow>
               if present then ensure_metrics ft keys evaluation_dict
               else
                 (case assign_metric ft evaluation_dict metric_key neutral_metric of
                    Inl e \<Rightarrow> Inl e
                  | Inr d \<Rightarrow> ensure_metrics ft keys d)))"

fun metric_scores :: "(fault \<Rightarrow> string) \<Rightarrow> json list \<Rightarrow> exn + json list" where
  \<comment> \<open>\<open>[m.get('score', 5) for m in ms]\<close>\<close>
  "metric_scores ft [] = Inr []"
| "metric_scores ft (m # ms) =
     (case py_get ft m ''score'' (JInt 5) of
        Inl e \<Rightarrow> Inl e
      | Inr s \<Rightarrow>
          (case metric_scores ft ms of
             Inl e \<Rightarrow> Inl e
           | Inr ss \<Rightarrow> Inr (s # ss)))"

definition true_divide :: "externals \<Rightarrow> json \<Rightarrow> int \<Rightarrow> exn + pyfloat" where
  \<comment> \<open>\<open>x / n\<close> for a number \<open>x\<close> and an integer \<open>n\<close>\<close>
  "true_divide ex x n =
     (case x of
        JInt a \<Rightarrow> int_true_divide ex a n
      | JFloat f \<Rightarrow> float_true_divide ex f n
      | _ \<Rightarrow> Inl (TypeError (fault_text ex (BadOperand x))))"

definition average_score :: "externals \<Rightarrow> json list \<Rightarrow> exn + json" where
  \<comment> \<open>\<open>sum(scores) / len(scores) if scores else 5\<close>\<close>
  "average_score ex scores =
     (if scores \<noteq> [] then
        (case py_sum (fault_text ex) (float_sum ex) 0 scores of
           Inl e \<Rightarrow> Inl e
         | Inr score_sum \<Rightarrow>
             (case true_divide ex score_sum (int (length scores)) of
                Inl e \<Rightarrow> Inl e
              | Inr ratio \<Rightarrow> Inr (JFloat ratio)))
      else Inr (JInt 5))"

definition ensure_overall_score :: "externals \<Rightarrow> json \<Rightarrow> exn + json" where
  "ensure_overall_score ex evaluation_dict =
     (let ft = fault_text ex in
      case py_in ft ''overall_score'' evaluation_dict of
        Inl e \<Rightarrow> Inl e
      | Inr present \<Rightarrow>
          if present then Inr evaluation_dict
          else
            (case py_get ft evaluation_dict ''metrics'' (JObj []) of
               Inl e \<Rightarrow> Inl e
             | Inr m \<Rightarrow>
                 (case py_values ft m of
                    Inl e \<Rightarrow> Inl e
                  | Inr ms \<Rightarrow>
                      (case metric_scores ft ms of
                         Inl e \<Rightarrow> Inl e
                       | Inr scores \<Rightarrow>
                           (case average_score ex scores of
                              Inl e \<Rightarrow> Inl e
                            | Inr v \<Rightarrow> py_setitem ft evaluation_dict ''overall_score'' v)))))"

definition ensure_text :: "(fault \<Rightarrow> string) \<Rightarrow> string \<Rightarrow> string \<Rightarrow> json \<Rightarrow> exn + json" where
  \<comment> \<open>\<open>if k not in evaluation_dict: evaluation_dict[k] = text\<close>\<close>
  "ensure_text ft k text evaluation_dict =
     (case py_in ft k evaluation_dict of
        Inl e \<Rightarrow> Inl e
      | Inr present \<Rightarrow>
          if present then Inr evaluation_dict
          else py_setitem ft evaluation_dict k (JStr text))"

definition complete :: "externals \<Rightarrow> string list \<Rightarrow> json \<Rightarrow> exn + json" where
  \<comment> \<open>the four "Ensure" steps, in the order of the source\<close>
  "complete ex keys evaluation_dict =
     (let ft = fault_text ex in
      case ensure_metrics ft keys evaluation_dict of
        Inl e \<Rightarrow> Inl e
      | Inr d1 \<Rightarrow>
          (case ensure_overall_score ex d1 of
             Inl e \<Rightarrow> Inl e
           | Inr d2 \<Rightarrow>
               (case ensure_text ft ''summary'' ''Evaluation completed with parsing issues'' d2 of
                  Inl e \<Rightarrow> Inl e
                | Inr d3 \<Rightarrow>
                    ensure_text ft ''recommendations''
                      ''Review the raw response for complete details'' d3)))"

subsection \<open>The two handlers and the function\<close>

definition zero_metrics :: "string \<Rightarrow> rubric \<Rightarrow> json" where
  \<comment> \<open>\<open>{key: {"score": 0, "explanation": text} for key in metrics.keys()}\<close>\<close>
  "zero_metrics text metrics =
     JObj (dict_comprehension [] (map fst metrics)
             (JObj [(''score'', JInt 0), (''explanation'', JStr text)]))"

definition parse_failure :: "rubric \<Rightarrow> exn \<Rightarrow> json" where
  \<comment> \<open>what the handler \<open>except Exception as parse_error\<close> returns\<close>
  "parse_failure metrics parse_error =
     JObj [(''overall_score'', JInt 0),
           (''metrics'', zero_metrics (''Parse error: '' @ str_exn parse_error) metrics),
           (''summary'',
            JStr (''Error parsing evaluation response: '' @ str_exn parse_error)),
           (''recommendations'', JStr ''Check the logs for the raw response'')]"

definition evaluation_failure :: "rubric \<Rightarrow> exn \<Rightarrow> json" where
  \<comment> \<open>what the outer handler \<open>except Exception as e\<close> returns\<close>
  "evaluation_failure metrics e =
     JObj [(''overall_score'', JInt 0),
           (''metrics'', zero_metrics (''Evaluation error: '' @ str_exn e) metrics),
           (''summary'', JStr (''Error during evaluation: '' @ str_exn e)),
           (''recommendations'', JStr [])]"

definition parse_evaluation_try :: "externals \<Rightarrow> rubric \<Rightarrow> string \<Rightarrow> exn + json" where
  \<comment> \<open>the body of the inner \<open>try\<close>\<close>
  "parse_evaluation_try ex metrics evaluation =
     (case recover (loads ex) evaluation of
        Inl e \<Rightarrow> Inl e
      | Inr evaluation_dict \<Rightarrow> complete ex (map fst metrics) evaluation_dict)"

definition parse_evaluation :: "externals \<Rightarrow> rubric \<Rightarrow> string \<Rightarrow> json" where
  "parse_evaluation ex metrics evaluation =
     (case parse_evaluation_try ex metrics evaluation of
        Inr evaluation_dict \<Rightarrow> evaluation_dict
      | Inl parse_error \<Rightarrow> parse_failure metrics parse_error)"

definition evaluate_response_try ::
  "externals \<Rightarrow> model_entry option \<Rightarrow> string \<Rightarrow> string \<Rightarrow> string \<Rightarrow> string list \<Rightarrow> string \<Rightarrow>
   rubric \<Rightarrow> string \<Rightarrow> string \<Rightarrow> string \<Rightarrow> string option \<Rightarrow> exn + json" where
  \<comment> \<open>the body of the outer \<open>try\<close>\<close>
  "evaluate_response_try ex selected_evaluation_model question response ground_truth
       retrieved_chunks eval_api_key metrics chat_history eval_provider eval_model base_url =
     (case evaluator_for selected_evaluation_model eval_provider eval_api_key eval_model
             base_url of
        Inl e \<Rightarrow> Inl e
      | Inr evaluator \<Rightarrow>
          (case invoke ex evaluator
                  (question, response, ground_truth, retrieved_chunks, metrics, chat_history) of
             Inl api_error \<Rightarrow> Inl (classify_api_error eval_provider api_error)
           | Inr evaluation \<Rightarrow> Inr (parse_evaluation ex metrics evaluation)))"

definition evaluate_response ::
  "externals \<Rightarrow> model_entry option \<Rightarrow> string \<Rightarrow> string \<Rightarrow> string \<Rightarrow> string list \<Rightarrow> string \<Rightarrow>
   rubric \<Rightarrow> string \<Rightarrow> string \<Rightarrow> string \<Rightarrow> string option \<Rightarrow> json" where
  \<comment> \<open>the first two arguments are the external collaborators and
      \<open>st.session_state['selected_evaluation_model']\<close>; the others are the parameters of
      the source, in its order\<close>
  "evaluate_response ex selected_evaluation_model question response ground_truth
       retrieved_chunks eval_api_key metrics chat_history eval_provider eval_model base_url =
     (case evaluate_response_try ex selected_evaluation_model question response ground_truth
             retrieved_chunks eval_api_key metrics chat_history eval_provider eval_model
             base_url of
        Inr result \<Rightarrow> result
      | Inl e \<Rightarrow> evaluation_failure metrics e)"

section \<open>llm_service.get_llm_provider\<close>

definition models_with_fixed_temperature :: "string list" where
  \<comment> \<open>the list of the OpenAI branch and of the DeepInfra branch\<close>
  "models_with_fixed_temperature = [''gpt-5'', ''o1-preview'', ''o1-mini'', ''o1'']"

definition plain_client :: "client_class \<Rightarrow> string \<Rightarrow> string \<Rightarrow> string option \<Rightarrow> rat \<Rightarrow> llm_client" where
  \<comment> \<open>a client constructed with a model, a key, a temperature and possibly a base URL,
      and no other argument\<close>
  "plain_client cls a_model a_key a_url a_temperature =
     \<lparr>arg_class = cls, arg_model_name = a_model, arg_api_key = a_key, arg_base_url = a_url,
      arg_temperature = a_temperature, arg_max_retries = None, arg_timeout = None,
      arg_token_limit = None\<rparr>"

definition get_llm_provider ::
  "model_entry option \<Rightarrow> string option \<Rightarrow> string \<Rightarrow> string \<Rightarrow> string \<Rightarrow> rat \<Rightarrow> exn + llm_client" where
  \<comment> \<open>the first two arguments are \<open>st.session_state['selected_inference_model']\<close> and
      \<open>st.session_state['deepinfra_base_url']\<close>\<close>
  "get_llm_provider selected_inference_model deepinfra_base_url provider model_name api_key
       temperature =
     (if provider = ''Custom Models'' then
        (case selected_inference_model of
           None \<Rightarrow> Inl (ValueError ''No custom inference model selected'')
         | Some selected_model \<Rightarrow>
             if entry_falsy (Some selected_model) then
               Inl (ValueError ''No custom inference model selected'')
             else
               (let model_name' =
                      (case entry_name selected_model of Some n \<Rightarrow> n | None \<Rightarrow> model_name);
                    base_url =
                      (case entry_base_url selected_model of
                         Some b \<Rightarrow> b | None \<Rightarrow> ''https://api.deepinfra.com/v1/openai'');
                    custom_temperature =
                      (case entry_temperature selected_model of
                         Some t \<Rightarrow> t | None \<Rightarrow> temperature);
                    fixed_temperature =
                      (case entry_fixed_temperature selected_model of
                         Some f \<Rightarrow> f | None \<Rightarrow> False);
                    custom_api_key =
                      (case entry_api_key selected_model of Some k \<Rightarrow> k | None \<Rightarrow> api_key);
                    final_temperature = (if fixed_temperature then 1 else custom_temperature)
                in Inr (plain_client ChatOpenAI model_name' custom_api_key (Some base_url)
                          final_temperature)))
      else if provider = ''OpenAI'' then
        (if any_marker_in models_with_fixed_temperature model_name then
           Inr (plain_client ChatOpenAI model_name api_key None 1)
         else Inr (plain_client ChatOpenAI model_name api_key None temperature))
      else if provider = ''Groq'' then
        Inr (plain_client ChatGroq model_name api_key None temperature)
      else if provider = ''Together AI'' then
        Inr (plain_client Together model_name api_key None temperature)
      else if provider = ''DeepInfra'' then
        (let base_url =
               (case deepinfra_base_url of
                  Some b \<Rightarrow> b | None \<Rightarrow> ''https://api.deepinfra.com/v1/openai'')
         in if any_marker_in models_with_fixed_temperature model_name then
              Inr (plain_client ChatOpenAI model_name api_key (Some base_url) 1)
            else Inr (plain_client ChatOpenAI model_name api_key (Some base_url) temperature))
      else Inl (ValueError (''Unsupported provider: '' @ provider)))"

section \<open>rag_service.create_rag_chain\<close>

definition RAG_PROMPT_TEMPLATE :: string where
  "RAG_PROMPT_TEMPLATE =
     ''To generate your answer: \<newline> - Carefully analyze the question and identify the key information needed to address it \<newline> - Locate the specific parts of each context that contain this key information \<newline> - Concisely summarize the relevant information from the  context(s) in your own words \<newline> - Provide a direct answer to the question \<newline> - Give detailed and accurate responses for things like 'write a blog' or long-form questions. \<newline> - For greeting messages, please greet the user appropriately. \<newline> - Please refrain from inventing responses. \<newline> - If the `Question` is not related to the provided `Context` and `Chat History`  then kindly RESPOND with 'I'm sorry, but that topic is beyond what I currently know.'. \<newline>Use the following context to answer the question: \<newline> ------ \<newline>\<newline>Context:\<newline>{context}\<newline>\<newline>Chat History:\<newline>{chat_history}\<newline>\<newline>Question: {question}\<newline>Answer:''"

datatype message = HumanMessage string | AIMessage string

text \<open>
  The chain \<open>ConversationalRetrievalChain.from_llm\<close> is given: the model, the retriever
  (the vector store and \<open>k\<close>), the memory with its messages, the prompt and two flags.
\<close>

record ('llm, 'store) rag_chain =
  chain_llm :: 'llm
  retriever_vectorstore :: 'store
  retriever_k :: int
  memory_key :: string
  memory_return_messages :: bool
  memory_output_key :: string
  chat_memory :: "message list"
  prompt_template :: string
  prompt_input_variables :: "string list"
  return_source_documents :: bool
  verbose :: bool

definition create_rag_chain :: "'llm \<Rightarrow> 'store \<Rightarrow> int \<Rightarrow> string \<Rightarrow> ('llm, 'store) rag_chain" where
  "create_rag_chain llm vectorstore num_chunks chat_history_str =
     \<lparr>chain_llm = llm,
      retriever_vectorstore = vectorstore,
      retriever_k = num_chunks,
      memory_key = ''chat_history'',
      memory_return_messages = True,
      memory_output_key = ''answer'',
      chat_memory =
        (if chat_history_str \<noteq> [] \<and> strip chat_history_str \<noteq> [] then
           [HumanMessage ''Previous conversation context'', AIMessage chat_history_str]
         else []),
      prompt_template = RAG_PROMPT_TEMPLATE,
      prompt_input_variables = [''context'', ''chat_history'', ''question''],
      return_source_documents = True,
      verbose = True\<rparr>"


section \<open>Reading a result, and fixtures for concrete instances\<close>

fun field :: "string \<Rightarrow> json \<Rightarrow> json option" where
  \<comment> \<open>the value under a key of a dictionary; \<open>None\<close> when the key is absent or the value
      is no dictionary\<close>
  "field k (JObj items) = map_of items k"
| "field k other = None"

definition metrics_keys :: "json \<Rightarrow> string set option" where
  \<comment> \<open>\<open>result['metrics'].keys()\<close>, when the result has a dictionary there\<close>
  "metrics_keys result =
     (case field ''metrics'' result of
        Some (JObj m) \<Rightarrow> Some (set (map fst m))
      | _ \<Rightarrow> None)"

definition metric_of :: "json \<Rightarrow> string \<Rightarrow> json option" where
  \<comment> \<open>\<open>result['metrics'][key]\<close>, when both are there\<close>
  "metric_of result key =
     (case field ''metrics'' result of
        Some m \<Rightarrow> field key m
      | None \<Rightarrow> None)"

fun fill_missing :: "(string \<times> json) list \<Rightarrow> string list \<Rightarrow> (string \<times> json) list" where
  \<comment> \<open>a metrics dictionary after each of the keys that it lacks was given the neutral
      entry, in the order of the keys\<close>
  "fill_missing m [] = m"
| "fill_missing m (key # keys) =
     fill_missing (if key \<in> set (map fst m) then m else AList.update key neutral_metric m) keys"

fun score_of :: "json \<Rightarrow> int option" where
  \<comment> \<open>the integer a metric entry has for a score: its \<open>score\<close> when that is an integer (a
      truth value counts as 1 or 0), 5 when the entry has no \<open>score\<close>\<close>
  "score_of (JObj fs) =
     (case map_of fs ''score'' of
        None \<Rightarrow> Some 5
      | Some (JInt r) \<Rightarrow> Some r
      | Some (JBool b) \<Rightarrow> Some (if b then 1 else 0)
      | Some other \<Rightarrow> None)"
| "score_of other = None"

fun scores_of :: "json list \<Rightarrow> int list option" where
  \<comment> \<open>the scores of the entries, when every entry has one\<close>
  "scores_of [] = Some []"
| "scores_of (v # vs) =
     (case score_of v of
        None \<Rightarrow> None
      | Some s \<Rightarrow> (case scores_of vs of None \<Rightarrow> None | Some ss \<Rightarrow> Some (s # ss)))"

definition strategy_texts :: "string \<Rightarrow> string option list" where
  \<comment> \<open>the text each recovery strategy selects from the reply, in the order of the
      strategies: the fence tagged \<open>json\<close> (its two patterns), the fence without a tag, the
      brace span, the whole reply; \<open>None\<close> where the pattern does not match\<close>
  "strategy_texts evaluation =
     [re_search FencedJsonNewline evaluation,
      re_search FencedJson evaluation,
      re_search FencedPlain evaluation,
      re_search RawObject evaluation,
      Some evaluation]"

definition strategy_outcomes ::
  "(string \<Rightarrow> exn + json) \<Rightarrow> string \<Rightarrow> (exn + json) option list" where
  \<comment> \<open>what \<open>json.loads\<close> makes of each selected text, stripped\<close>
  "strategy_outcomes json_loads evaluation =
     map (map_option (\<lambda>text. json_loads (strip text))) (strategy_texts evaluation)"

definition decoder_table :: "(string \<times> json) list \<Rightarrow> string \<Rightarrow> exn + json" where
  \<comment> \<open>a decoder given by the texts it accepts: it stands for \<open>json.loads\<close> in a concrete
      instance where every other text it is applied to is not JSON\<close>
  "decoder_table table s =
     (case map_of table s of
        Some v \<Rightarrow> Inr v
      | None \<Rightarrow> Inl (JSONDecodeError ''Expecting value''))"

definition judge_fixture :: "(string \<Rightarrow> exn + json) \<Rightarrow> exn + string \<Rightarrow> externals" where
  \<comment> \<open>collaborators for a concrete instance: a decoder and the outcome of the one call
      of the judge; the division of integers is exact, which is the interpreter's where
      the quotient is a float, as in the instances below; they have no float to add\<close>
  "judge_fixture json_loads outcome =
     \<lparr>loads = json_loads, invoke = (\<lambda>evaluator inputs. outcome),
      fault_text = (\<lambda>f. ''fault''),
      float_sum = (\<lambda>acc xs. Inl (OtherException ''no float in the instance'')),
      int_true_divide =
        (\<lambda>a n. if n = 0 then Inl (ZeroDivisionError ''division by zero'')
               else Inr (Finite (of_int a / of_int n))),
      float_true_divide = (\<lambda>f n. Inl (OtherException ''no float in the instance''))\<rparr>"



definition payload_correctness :: string where
  \<comment> \<open>the payload of the end-to-end scenario\<close>
  \<open>payload_correctness =
     ''{"overall_score":10,"metrics":{"correctness":{"score":10,"explanation":"exact match"}},"summary":"ok","recommendations":"none"}''\<close>

definition parsed_correctness :: json where
  \<comment> \<open>what \<open>json.loads\<close> returns on \<open>payload_correctness\<close>\<close>
  "parsed_correctness =
     JObj [(''overall_score'', JInt 10),
           (''metrics'',
            JObj [(''correctness'',
                   JObj [(''score'', JInt 10), (''explanation'', JStr ''exact match'')])]),
           (''summary'', JStr ''ok''),
           (''recommendations'', JStr ''none'')]"

definition claude_evaluator :: llm_client where
  \<comment> \<open>the evaluator of the Claude branch for the key \<open>sk-test\<close> and the default model\<close>
  "claude_evaluator =
     \<lparr>arg_class = ChatAnthropic, arg_model_name = ''claude-sonnet-4-20250514'',
      arg_api_key = ''sk-test'', arg_base_url = None, arg_temperature = 1 / 10,
      arg_max_retries = Some 2, arg_timeout = Some 360,
      arg_token_limit = Some (MaxTokens 4096)\<rparr>"

definition rubric_abc :: rubric where
  "rubric_abc =
     [(''a'', \<lparr>name = ''A'', description = ''first''\<rparr>),
      (''b'', \<lparr>name = ''B'', description = ''second''\<rparr>),
      (''c'', \<lparr>name = ''C'', description = ''third''\<rparr>)]"

definition reply_two_scores :: string where
  \<comment> \<open>the reply of the example: scores for \<open>a\<close> and \<open>b\<close>, no \<open>overall_score\<close>\<close>
  \<open>reply_two_scores =
     ''{"metrics":{"a":{"score":9,"explanation":"x"},"b":{"score":7,"explanation":"y"}}}''\<close>

definition parsed_two_scores :: "(string \<times> json) list" where
  \<comment> \<open>the items of what \<open>json.loads\<close> returns on \<open>reply_two_scores\<close>\<close>
  "parsed_two_scores =
     [(''metrics'',
       JObj [(''a'', JObj [(''score'', JInt 9), (''explanation'', JStr ''x'')]),
             (''b'', JObj [(''score'', JInt 7), (''explanation'', JStr ''y'')])])]"

definition reply_summary_only :: string where
  \<open>reply_summary_only = ''{"summary": "fine"}''\<close>

definition reply_text_score :: string where
  \<open>reply_text_score = ''{"metrics": {"a": {"score": "high", "explanation": "x"}}}''\<close>

definition reply_overall_only :: string where
  \<open>reply_overall_only = ''{"overall_score": 9}''\<close>

section \<open>Properties of generate_rag_response\<close>

text \<open>
  C8. Whenever the chain raises on the question, whatever the exception,
  \<open>generate_rag_response\<close> returns (it is a total function into results, the handler
  catches every exception of the body): the answer is the placeholder
  \<open>Error generating response: \<close> followed by the text of the exception, and the
  sequence of source documents is empty.
\<close>

theorem generate_rag_response_degrades:
  "chain question = Inl e \<Longrightarrow>
   generate_rag_response chain question =
     \<lparr>answer = ''Error generating response: '' @ str_exn e, source_documents = []\<rparr>"
  by (simp add: generate_rag_response_def generate_rag_response_try_def)

theorem generate_rag_response_degrades_witness:
  "(\<lambda>q. Inl (ConnectionError ''timed out'')) ''What is 2+2?'' = Inl (ConnectionError ''timed out'') \<and>
   generate_rag_response (\<lambda>q. Inl (ConnectionError ''timed out'')) ''What is 2+2?'' =
     \<lparr>answer = ''Error generating response: timed out'',
      source_documents = ([] :: nat list)\<rparr>"
  using generate_rag_response_degrades
    [of "\<lambda>q. Inl (ConnectionError ''timed out'')" "''What is 2+2?''"
        "ConnectionError ''timed out''"]
  by simp

section \<open>Helper lemmas on the completion steps\<close>

lemma py_setitem_keeps_field:
  "py_setitem ft d k v = Inr d' \<Longrightarrow> k \<noteq> k' \<Longrightarrow> field k' d' = field k' d"
  by (cases d) (auto simp: py_setitem_def update_conv')




lemma map_of_dict_comprehension:
  "map_of (dict_comprehension acc keys v) k = (if k \<in> set keys then Some v else map_of acc k)"
  by (induction keys arbitrary: acc) (auto simp: update_conv')




section \<open>Helper lemmas on filling, scores and the handlers\<close>

lemma map_of_fill_missing:
  "map_of (fill_missing m keys) k =
     (case map_of m k of Some v \<Rightarrow> Some v | None \<Rightarrow> if k \<in> set keys then Some neutral_metric else None)"
proof (induction keys arbitrary: m)
  case Nil
  then show ?case by (simp split: option.splits)
next
  case (Cons key keys)
  show ?case
  proof (cases "key \<in> set (map fst m)")
    case True
    then have "map_of m key \<noteq> None" by (simp add: map_of_eq_None_iff)
    with True Cons.IH[of m] show ?thesis by (auto split: option.splits)
  next
    case False
    then have "map_of m key = None" by (simp add: map_of_eq_None_iff)
    with False Cons.IH[of "AList.update key neutral_metric m"] show ?thesis
      by (auto simp: update_conv' split: option.splits)
  qed
qed

lemma keys_fill_missing: "set (map fst (fill_missing m keys)) = set (map fst m) \<union> set keys"
  by (induction keys arbitrary: m) (auto simp: dom_update)

lemma ensure_metrics_fill:
  "map_of items ''metrics'' = Some (JObj m) \<Longrightarrow>
   ensure_metrics ft keys (JObj items) =
     Inr (JObj (AList.update ''metrics'' (JObj (fill_missing m keys)) items))"
proof (induction keys arbitrary: m items)
  case Nil
  then show ?case by (simp add: update_triv)
next
  case (Cons key keys)
  have g: "py_get ft (JObj items) ''metrics'' (JObj []) = Inr (JObj m)"
    using Cons.prems by (simp add: py_get_def)
  have i: "py_in ft key (JObj m) = Inr (key \<in> set (map fst m))" by (simp add: py_in_def)
  show ?case
  proof (cases "key \<in> set (map fst m)")
    case True
    with g i Cons.IH[OF Cons.prems] show ?thesis by simp
  next
    case False
    let ?m1 = "AList.update key neutral_metric m"
    let ?items1 = "AList.update ''metrics'' (JObj ?m1) items"
    have a: "assign_metric ft (JObj items) key neutral_metric = Inr (JObj ?items1)"
      using Cons.prems by (simp add: assign_metric_def py_getitem_def py_setitem_def)
    have "map_of ?items1 ''metrics'' = Some (JObj ?m1)" by (simp add: update_conv')
    from Cons.IH[OF this] have
      "ensure_metrics ft keys (JObj ?items1) =
         Inr (JObj (AList.update ''metrics'' (JObj (fill_missing ?m1 keys)) items))"
      by simp
    with False g i a show ?thesis by simp
  qed
qed

lemma scores_sum:
  "scores_of vs = Some ss \<Longrightarrow>
   \<exists>js. metric_scores ft vs = Inr js \<and> length js = length vs \<and>
        (\<forall>acc. py_sum ft fs acc js = Inr (JInt (acc + sum_list ss)))"
proof (induction vs arbitrary: ss)
  case Nil
  then show ?case by simp
next
  case (Cons v vs)
  from Cons.prems obtain s ss' where s: "score_of v = Some s" and ss': "scores_of vs = Some ss'"
    and ss: "ss = s # ss'"
    by (auto split: option.splits)
  from Cons.IH[OF ss'] obtain js where js: "metric_scores ft vs = Inr js" "length js = length vs"
    "\<forall>acc. py_sum ft fs acc js = Inr (JInt (acc + sum_list ss'))" by blast
  from s obtain items where items: "v = JObj items" by (cases v) simp_all
  from s items obtain j where j: "py_get ft v ''score'' (JInt 5) = Inr j"
    and jv: "(j = JInt s) \<or> (\<exists>b. j = JBool b \<and> s = (if b then 1 else 0))"
    by (auto simp: py_get_def split: option.splits json.splits)
  have "\<forall>acc. py_sum ft fs acc (j # js) = Inr (JInt (acc + sum_list ss))"
    using jv js(3) ss by (auto simp: add.assoc)
  with j js(1,2) show ?case by simp
qed

lemma evaluate_response_reply:
  assumes "evaluator_for selected_evaluation_model eval_provider eval_api_key eval_model base_url
             = Inr evaluator"
    and "invoke ex evaluator
           (question, response, ground_truth, retrieved_chunks, metrics, chat_history)
           = Inr evaluation"
  shows "evaluate_response ex selected_evaluation_model question response ground_truth
           retrieved_chunks eval_api_key metrics chat_history eval_provider eval_model base_url
         = parse_evaluation ex metrics evaluation"
  using assms by (simp add: evaluate_response_def evaluate_response_try_def)

lemma evaluate_response_raised:
  assumes "evaluator_for selected_evaluation_model eval_provider eval_api_key eval_model base_url
             = Inr evaluator"
    and "invoke ex evaluator
           (question, response, ground_truth, retrieved_chunks, metrics, chat_history)
           = Inl api_error"
  shows "evaluate_response ex selected_evaluation_model question response ground_truth
           retrieved_chunks eval_api_key metrics chat_history eval_provider eval_model base_url
         = evaluation_failure metrics (classify_api_error eval_provider api_error)"
  using assms by (simp add: evaluate_response_def evaluate_response_try_def)

lemma metric_of_zero_metrics:
  "key \<in> set (map fst metrics) \<Longrightarrow>
   field key (zero_metrics text metrics)
     = Some (JObj [(''score'', JInt 0), (''explanation'', JStr text)])"
  by (simp add: zero_metrics_def map_of_dict_comprehension)

lemma ensure_metrics_without_metrics_key:
  assumes "''metrics'' \<notin> set (map fst items)"
  shows "ensure_metrics ft (key # keys) (JObj items) = Inl (key_error ''metrics'')"
proof -
  from assms have n: "map_of items ''metrics'' = None" by (simp add: map_of_eq_None_iff)
  then have "py_get ft (JObj items) ''metrics'' (JObj []) = Inr (JObj [])"
    by (simp add: py_get_def)
  moreover have "py_in ft key (JObj []) = Inr False" by (simp add: py_in_def)
  moreover from n have "assign_metric ft (JObj items) key neutral_metric = Inl (key_error ''metrics'')"
    by (simp add: assign_metric_def py_getitem_def)
  ultimately show ?thesis by simp
qed



lemma match_patterns_all_fail:
  "(\<forall>pattern \<in> set patterns. \<forall>json_str. re_search pattern evaluation = Some json_str \<longrightarrow>
       (\<exists>e. json_loads (strip json_str) = Inl e \<and> is_json_decode_error e)) \<Longrightarrow>
   match_patterns json_loads patterns evaluation = Inr JNull"
proof (induction patterns)
  case Nil
  then show ?case by simp
next
  case (Cons pattern patterns)
  then have ih: "match_patterns json_loads patterns evaluation = Inr JNull" by simp
  show ?case
  proof (cases "re_search pattern evaluation")
    case None
    with ih show ?thesis by simp
  next
    case (Some json_str)
    with Cons.prems obtain e where "json_loads (strip json_str) = Inl e" "is_json_decode_error e"
      by auto
    with Some ih show ?thesis by simp
  qed
qed

lemma complete_default_evaluation:
  "complete ex keys (default_evaluation evaluation) =
     Inr (JObj [(''overall_score'', JInt 5),
                (''metrics'', JObj (fill_missing [] keys)),
                (''summary'', JStr ''Failed to parse complete evaluation''),
                (''recommendations'',
                 JStr (''Raw response (first 500 chars): '' @ take 500 evaluation))])"
proof -
  have "ensure_metrics (fault_text ex) keys (default_evaluation evaluation) =
     Inr (JObj [(''overall_score'', JInt 5),
                (''metrics'', JObj (fill_missing [] keys)),
                (''summary'', JStr ''Failed to parse complete evaluation''),
                (''recommendations'',
                 JStr (''Raw response (first 500 chars): '' @ take 500 evaluation))])"
    unfolding default_evaluation_def
    by (subst ensure_metrics_fill[where m = "[]"]) simp_all
  then show ?thesis
    by (simp add: complete_def Let_def ensure_overall_score_def ensure_text_def py_in_def)
qed


lemma ensure_text_field:
  assumes "ensure_text ft k text d = Inr d'" "field k' d = Some v"
  shows "field k' d' = Some v"
proof -
  from assms(1) obtain present where p: "py_in ft k d = Inr present"
    by (auto simp: ensure_text_def split: sum.splits)
  show ?thesis
  proof (cases present)
    case True
    with assms p show ?thesis by (simp add: ensure_text_def)
  next
    case False
    with assms(1) p have s: "py_setitem ft d k (JStr text) = Inr d'" by (simp add: ensure_text_def)
    from assms(2) obtain items where d: "d = JObj items" by (cases d) simp_all
    from False p d have "k \<notin> set (map fst items)" by (simp add: py_in_def)
    with assms(2) d have "k \<noteq> k'" by (auto simp: map_of_eq_None_iff[symmetric])
    from py_setitem_keeps_field[OF s this] assms(2) show ?thesis by simp
  qed
qed

lemma ensure_text_total:
  "\<exists>d'. ensure_text ft k text (JObj items) = Inr d'"
  by (simp add: ensure_text_def py_in_def py_setitem_def)

lemma scores_of_length: "scores_of vs = Some ss \<Longrightarrow> length ss = length vs"
  by (induction vs arbitrary: ss) (auto split: option.splits)

section \<open>The keys of the result's metrics\<close>






section \<open>A reply without the key metrics\<close>

text \<open>
  C10. When the evaluator was built and the judge replied, the recovered JSON is a
  dictionary without the key \<open>metrics\<close> and the rubric is not empty, the completion
  loop raises \<open>KeyError('metrics')\<close> at its first assignment, and \<open>evaluate_response\<close>
  returns what the parse handler builds: \<open>overall_score\<close> 0 and every metric of the
  rubric with score 0 (not the neutral 5 of the soft failure).
\<close>

theorem evaluate_response_without_metrics_key:
  assumes "evaluator_for selected_evaluation_model eval_provider eval_api_key eval_model base_url
             = Inr evaluator"
    and "invoke ex evaluator
           (question, response, ground_truth, retrieved_chunks, metrics, chat_history)
           = Inr evaluation"
    and "recover (loads ex) evaluation = Inr (JObj items)"
    and "''metrics'' \<notin> set (map fst items)"
    and "metrics \<noteq> []"
  shows "evaluate_response ex selected_evaluation_model question response ground_truth
           retrieved_chunks eval_api_key metrics chat_history eval_provider eval_model base_url
         = parse_failure metrics (key_error ''metrics'')
       \<and> field ''overall_score'' (parse_failure metrics (key_error ''metrics'')) = Some (JInt 0)
       \<and> (\<forall>key \<in> set (map fst metrics).
             metric_of (parse_failure metrics (key_error ''metrics'')) key
               = Some (JObj [(''score'', JInt 0),
                             (''explanation'',
                              JStr (''Parse error: '' @ str_exn (key_error ''metrics'')))]))"
proof -
  from assms(5) obtain key keys where k: "map fst metrics = key # keys" by (cases metrics) auto
  have "complete ex (map fst metrics) (JObj items) = Inl (key_error ''metrics'')"
    unfolding k using ensure_metrics_without_metrics_key[OF assms(4)]
    by (simp add: complete_def Let_def)
  with assms(3) have "parse_evaluation ex metrics evaluation
      = parse_failure metrics (key_error ''metrics'')"
    by (simp add: parse_evaluation_def parse_evaluation_try_def)
  with evaluate_response_reply[OF assms(1,2)] have
    "evaluate_response ex selected_evaluation_model question response ground_truth
       retrieved_chunks eval_api_key metrics chat_history eval_provider eval_model base_url
     = parse_failure metrics (key_error ''metrics'')" by simp
  moreover have "field ''overall_score'' (parse_failure metrics (key_error ''metrics''))
     = Some (JInt 0)" by (simp add: parse_failure_def)
  moreover have "\<forall>key \<in> set (map fst metrics).
             metric_of (parse_failure metrics (key_error ''metrics'')) key
               = Some (JObj [(''score'', JInt 0),
                             (''explanation'',
                              JStr (''Parse error: '' @ str_exn (key_error ''metrics'')))])"
    using metric_of_zero_metrics by (simp add: metric_of_def parse_failure_def)
  ultimately show ?thesis by blast
qed

theorem evaluate_response_without_metrics_key_witness:
  "recover (decoder_table [(reply_overall_only, JObj [(''overall_score'', JInt 9)])]) reply_overall_only = Inr (JObj [(''overall_score'', JInt 9)])
   \<and> field ''overall_score'' (evaluate_response
        (judge_fixture (decoder_table [(reply_overall_only, JObj [(''overall_score'', JInt 9)])]) (Inr reply_overall_only))
        None ''What is 2+2?'' ''4'' ''4'' [] ''sk-test'' [(''a'', \<lparr>name = ''A'', description = ''first''\<rparr>)] []
        ''Claude'' ''claude-sonnet-4-20250514'' None) = Some (JInt 0)
   \<and> metric_of (evaluate_response
        (judge_fixture (decoder_table [(reply_overall_only, JObj [(''overall_score'', JInt 9)])]) (Inr reply_overall_only))
        None ''What is 2+2?'' ''4'' ''4'' [] ''sk-test'' [(''a'', \<lparr>name = ''A'', description = ''first''\<rparr>)] []
        ''Claude'' ''claude-sonnet-4-20250514'' None) ''a''
       = Some (JObj [(''score'', JInt 0),
                     (''explanation'', JStr (''Parse error: '' @ [CHR 0x27] @ ''metrics'' @ [CHR 0x27]))])"
proof -
  have h1: "evaluator_for None ''Claude'' ''sk-test'' ''claude-sonnet-4-20250514'' None
              = Inr claude_evaluator"
    by code_simp
  have h2: "invoke (judge_fixture (decoder_table [(reply_overall_only, JObj [(''overall_score'', JInt 9)])]) (Inr reply_overall_only)) claude_evaluator
              (''What is 2+2?'', ''4'', ''4'', [], [(''a'', \<lparr>name = ''A'', description = ''first''\<rparr>)], []) = Inr reply_overall_only"
    by (simp add: judge_fixture_def)
  have h3: "recover (loads (judge_fixture (decoder_table [(reply_overall_only, JObj [(''overall_score'', JInt 9)])]) (Inr reply_overall_only)))
              reply_overall_only = Inr (JObj [(''overall_score'', JInt 9)])"
    by code_simp
  have h3': "recover (decoder_table [(reply_overall_only, JObj [(''overall_score'', JInt 9)])]) reply_overall_only
               = Inr (JObj [(''overall_score'', JInt 9)])"
    by code_simp
  have h4: "''metrics'' \<notin> set (map fst [(''overall_score'', JInt 9)])" by simp
  have h5: "[(''a'', \<lparr>name = ''A'', description = ''first''\<rparr>)] \<noteq> []" by simp
  from evaluate_response_without_metrics_key [OF h1 h2 h3 h4 h5] h3'
  show ?thesis by (simp add: key_error_def)
qed

section \<open>The judge raises an authentication error\<close>

text \<open>
  C5. For every rubric: when the evaluator was built, the call of the judge raises and the
  lower-cased text of the exception contains \<open>authentication\<close> or \<open>unauthorized\<close>,
  \<open>evaluate_response\<close> returns (no exception leaves it) the result of the outer handler
  for the classified exception: \<open>overall_score\<close> 0 and, for every id of the rubric, score 0
  with the explanation \<open>Evaluation error: \<close> followed by the text of the classified
  exception. That text is \<open>Invalid <provider> API key. Please check your API key.\<close>
  unless the text of the raised exception also contains \<open>connection\<close>, which the
  classification tests first.
\<close>

theorem evaluate_response_authentication_error:
  assumes "evaluator_for selected_evaluation_model eval_provider eval_api_key eval_model base_url
             = Inr evaluator"
    and "invoke ex evaluator
           (question, response, ground_truth, retrieved_chunks, metrics, chat_history)
           = Inl api_error"
    and "contains ''authentication'' (lower (str_exn api_error))
         \<or> contains ''unauthorized'' (lower (str_exn api_error))"
  shows "evaluate_response ex selected_evaluation_model question response ground_truth
           retrieved_chunks eval_api_key metrics chat_history eval_provider eval_model base_url
         = evaluation_failure metrics (classify_api_error eval_provider api_error)
       \<and> field ''overall_score''
            (evaluation_failure metrics (classify_api_error eval_provider api_error))
           = Some (JInt 0)
       \<and> (\<forall>key \<in> set (map fst metrics).
             metric_of (evaluation_failure metrics (classify_api_error eval_provider api_error)) key
               = Some (JObj [(''score'', JInt 0),
                             (''explanation'',
                              JStr (''Evaluation error: ''
                                    @ str_exn (classify_api_error eval_provider api_error)))]))
       \<and> (\<not> contains ''connection'' (lower (str_exn api_error)) \<longrightarrow>
            classify_api_error eval_provider api_error
              = ValueError (''Invalid '' @ (if eval_provider = ''Claude'' then ''Claude'' else ''OpenAI'')
                            @ '' API key. Please check your API key.''))"
proof -
  let ?e = "classify_api_error eval_provider api_error"
  have "field ''overall_score'' (evaluation_failure metrics ?e) = Some (JInt 0)"
    by (simp add: evaluation_failure_def)
  moreover have "\<forall>key \<in> set (map fst metrics).
             metric_of (evaluation_failure metrics ?e) key
               = Some (JObj [(''score'', JInt 0),
                             (''explanation'', JStr (''Evaluation error: '' @ str_exn ?e))])"
    using metric_of_zero_metrics by (simp add: metric_of_def evaluation_failure_def)
  moreover have "\<not> contains ''connection'' (lower (str_exn api_error)) \<longrightarrow>
            ?e = ValueError (''Invalid '' @ (if eval_provider = ''Claude'' then ''Claude'' else ''OpenAI'')
                            @ '' API key. Please check your API key.'')"
    using assms(3) by (simp add: classify_api_error_def Let_def)
  ultimately show ?thesis using evaluate_response_raised[OF assms(1,2)] by blast
qed

theorem evaluate_response_authentication_error_witness:
  "contains ''unauthorized'' (lower ''Error code: 401 - Unauthorized: invalid x-api-key'')
   \<and> field ''overall_score'' (evaluate_response
        (judge_fixture (decoder_table []) (Inl (OtherException ''Error code: 401 - Unauthorized: invalid x-api-key'')))
        None ''What is 2+2?'' ''4'' ''4'' [] ''sk-test'' [(''a'', \<lparr>name = ''A'', description = ''first''\<rparr>)] []
        ''Claude'' ''claude-sonnet-4-20250514'' None) = Some (JInt 0)
   \<and> metric_of (evaluate_response
        (judge_fixture (decoder_table []) (Inl (OtherException ''Error code: 401 - Unauthorized: invalid x-api-key'')))
        None ''What is 2+2?'' ''4'' ''4'' [] ''sk-test'' [(''a'', \<lparr>name = ''A'', description = ''first''\<rparr>)] []
        ''Claude'' ''claude-sonnet-4-20250514'' None) ''a''
       = Some (JObj [(''score'', JInt 0),
                     (''explanation'',
                      JStr ''Evaluation error: Invalid Claude API key. Please check your API key.'')])"
proof -
  have h1: "evaluator_for None ''Claude'' ''sk-test'' ''claude-sonnet-4-20250514'' None
              = Inr claude_evaluator"
    by code_simp
  have h2: "invoke (judge_fixture (decoder_table []) (Inl (OtherException ''Error code: 401 - Unauthorized: invalid x-api-key''))) claude_evaluator
              (''What is 2+2?'', ''4'', ''4'', [], [(''a'', \<lparr>name = ''A'', description = ''first''\<rparr>)], []) = Inl (OtherException ''Error code: 401 - Unauthorized: invalid x-api-key'')"
    by (simp add: judge_fixture_def)
  have c: "contains ''unauthorized'' (lower ''Error code: 401 - Unauthorized: invalid x-api-key'')" by code_simp
  have n: "\<not> contains ''connection'' (lower ''Error code: 401 - Unauthorized: invalid x-api-key'')" by code_simp
  have h3: "contains ''authentication'' (lower (str_exn (OtherException ''Error code: 401 - Unauthorized: invalid x-api-key'')))
            \<or> contains ''unauthorized'' (lower (str_exn (OtherException ''Error code: 401 - Unauthorized: invalid x-api-key'')))"
    using c by simp
  note t = evaluate_response_authentication_error [OF h1 h2 h3]
  from t n have cls: "classify_api_error ''Claude''
        (OtherException ''Error code: 401 - Unauthorized: invalid x-api-key'')
      = ValueError ''Invalid Claude API key. Please check your API key.''"
    by simp
  have a: "''a'' \<in> set (map fst [(''a'', \<lparr>name = ''A'', description = ''first''\<rparr>)])" by simp
  from t a have m: "metric_of (evaluation_failure [(''a'', \<lparr>name = ''A'', description = ''first''\<rparr>)]
        (classify_api_error ''Claude''
           (OtherException ''Error code: 401 - Unauthorized: invalid x-api-key''))) ''a''
      = Some (JObj [(''score'', JInt 0),
                    (''explanation'',
                     JStr (''Evaluation error: '' @ str_exn (classify_api_error ''Claude''
           (OtherException ''Error code: 401 - Unauthorized: invalid x-api-key''))))])"
    by blast
  from t c m show ?thesis unfolding cls by simp
qed

section \<open>The soft failure\<close>

text \<open>
  C4. When the evaluator was built and the judge replied, and every strategy fails on the
  reply (each pattern either does not match or selects a text on which \<open>json.loads\<close>
  raises \<open>JSONDecodeError\<close>, and so does the whole reply), the result of
  \<open>evaluate_response\<close> has \<open>overall_score\<close> 5, has exactly the ids of the rubric as
  metrics, each with the neutral score 5, has the parse-failure summary, and its
  recommendations are the notice followed by the first 500 characters of the reply.
\<close>

theorem evaluate_response_soft_failure:
  assumes "evaluator_for selected_evaluation_model eval_provider eval_api_key eval_model base_url
             = Inr evaluator"
    and "invoke ex evaluator
           (question, response, ground_truth, retrieved_chunks, metrics, chat_history)
           = Inr evaluation"
    and "\<forall>pattern \<in> set json_patterns. \<forall>json_str.
           re_search pattern evaluation = Some json_str \<longrightarrow>
           (\<exists>e. loads ex (strip json_str) = Inl e \<and> is_json_decode_error e)"
    and "\<exists>e. loads ex (strip evaluation) = Inl e \<and> is_json_decode_error e"
  shows "field ''overall_score''
           (evaluate_response ex selected_evaluation_model question response ground_truth
              retrieved_chunks eval_api_key metrics chat_history eval_provider eval_model base_url)
           = Some (JInt 5)
       \<and> metrics_keys
           (evaluate_response ex selected_evaluation_model question response ground_truth
              retrieved_chunks eval_api_key metrics chat_history eval_provider eval_model base_url)
           = Some (set (map fst metrics))
       \<and> (\<forall>key \<in> set (map fst metrics).
             metric_of
               (evaluate_response ex selected_evaluation_model question response ground_truth
                  retrieved_chunks eval_api_key metrics chat_history eval_provider eval_model
                  base_url) key
             = Some (JObj [(''score'', JInt 5),
                           (''explanation'', JStr ''Metric not evaluated or parsing failed'')]))
       \<and> field ''summary''
           (evaluate_response ex selected_evaluation_model question response ground_truth
              retrieved_chunks eval_api_key metrics chat_history eval_provider eval_model base_url)
           = Some (JStr ''Failed to parse complete evaluation'')
       \<and> field ''recommendations''
           (evaluate_response ex selected_evaluation_model question response ground_truth
              retrieved_chunks eval_api_key metrics chat_history eval_provider eval_model base_url)
           = Some (JStr (''Raw response (first 500 chars): '' @ take 500 evaluation))"
proof -
  let ?result = "JObj [(''overall_score'', JInt 5),
                (''metrics'', JObj (fill_missing [] (map fst metrics))),
                (''summary'', JStr ''Failed to parse complete evaluation''),
                (''recommendations'',
                 JStr (''Raw response (first 500 chars): '' @ take 500 evaluation))]"
  from assms(4) obtain e where e: "loads ex (strip evaluation) = Inl e" "is_json_decode_error e"
    by blast
  from match_patterns_all_fail[OF assms(3)] e
  have "recover (loads ex) evaluation = Inr (default_evaluation evaluation)"
    by (simp add: recover_def)
  then have "parse_evaluation ex metrics evaluation = ?result"
    by (simp add: parse_evaluation_def parse_evaluation_try_def complete_default_evaluation)
  with evaluate_response_reply[OF assms(1,2)] have r:
    "evaluate_response ex selected_evaluation_model question response ground_truth
       retrieved_chunks eval_api_key metrics chat_history eval_provider eval_model base_url
     = ?result" by simp
  have "metrics_keys ?result = Some (set (map fst metrics))"
    using keys_fill_missing[of "[]" "map fst metrics"] by (simp add: metrics_keys_def)
  moreover have "\<forall>key \<in> set (map fst metrics). metric_of ?result key
             = Some (JObj [(''score'', JInt 5),
                           (''explanation'', JStr ''Metric not evaluated or parsing failed'')])"
    by (simp add: metric_of_def map_of_fill_missing neutral_metric_def)
  ultimately show ?thesis unfolding r by simp
qed

theorem evaluate_response_soft_failure_witness:
  "re_search RawObject ''The answer looks fine to me.'' = None
   \<and> field ''overall_score'' (evaluate_response
        (judge_fixture (decoder_table []) (Inr ''The answer looks fine to me.''))
        None ''What is 2+2?'' ''4'' ''4'' [] ''sk-test'' rubric_abc []
        ''Claude'' ''claude-sonnet-4-20250514'' None) = Some (JInt 5)
   \<and> metrics_keys (evaluate_response
        (judge_fixture (decoder_table []) (Inr ''The answer looks fine to me.''))
        None ''What is 2+2?'' ''4'' ''4'' [] ''sk-test'' rubric_abc []
        ''Claude'' ''claude-sonnet-4-20250514'' None) = Some {''a'', ''b'', ''c''}
   \<and> metric_of (evaluate_response
        (judge_fixture (decoder_table []) (Inr ''The answer looks fine to me.''))
        None ''What is 2+2?'' ''4'' ''4'' [] ''sk-test'' rubric_abc []
        ''Claude'' ''claude-sonnet-4-20250514'' None) ''b''
       = Some (JObj [(''score'', JInt 5),
                     (''explanation'', JStr ''Metric not evaluated or parsing failed'')])
   \<and> field ''recommendations'' (evaluate_response
        (judge_fixture (decoder_table []) (Inr ''The answer looks fine to me.''))
        None ''What is 2+2?'' ''4'' ''4'' [] ''sk-test'' rubric_abc []
        ''Claude'' ''claude-sonnet-4-20250514'' None)
       = Some (JStr ''Raw response (first 500 chars): The answer looks fine to me.'')"
proof -
  have h1: "evaluator_for None ''Claude'' ''sk-test'' ''claude-sonnet-4-20250514'' None
              = Inr claude_evaluator"
    by code_simp
  have h2: "invoke (judge_fixture (decoder_table []) (Inr ''The answer looks fine to me.'')) claude_evaluator
              (''What is 2+2?'', ''4'', ''4'', [], rubric_abc, []) = Inr ''The answer looks fine to me.''"
    by (simp add: judge_fixture_def)
  have p1: "re_search FencedJsonNewline ''The answer looks fine to me.'' = None" by code_simp
  have p2: "re_search FencedJson ''The answer looks fine to me.'' = None" by code_simp
  have p3: "re_search FencedPlain ''The answer looks fine to me.'' = None" by code_simp
  have p4: "re_search RawObject ''The answer looks fine to me.'' = None" by code_simp
  have h3: "\<forall>pattern \<in> set json_patterns. \<forall>json_str.
           re_search pattern ''The answer looks fine to me.'' = Some json_str \<longrightarrow>
           (\<exists>e. loads (judge_fixture (decoder_table []) (Inr ''The answer looks fine to me.'')) (strip json_str) = Inl e
                \<and> is_json_decode_error e)"
    using p1 p2 p3 p4 by (simp add: json_patterns_def)
  have h4: "\<exists>e. loads (judge_fixture (decoder_table []) (Inr ''The answer looks fine to me.'')) (strip ''The answer looks fine to me.'') = Inl e
                \<and> is_json_decode_error e"
    by (simp add: judge_fixture_def decoder_table_def)
  have k: "set (map fst rubric_abc) = {''a'', ''b'', ''c''}" by (simp add: rubric_abc_def)
  have kb: "''b'' \<in> set (map fst rubric_abc)" by (simp add: rubric_abc_def)
  note t = evaluate_response_soft_failure [OF h1 h2 h3 h4]
  from t kb have "metric_of
       (evaluate_response
          (judge_fixture (decoder_table []) (Inr ''The answer looks fine to me.''))
          None ''What is 2+2?'' ''4'' ''4'' [] ''sk-test'' rubric_abc []
          ''Claude'' ''claude-sonnet-4-20250514'' None) ''b''
       = Some (JObj [(''score'', JInt 5),
                     (''explanation'', JStr ''Metric not evaluated or parsing failed'')])"
    by blast
  with t p4 k show ?thesis by simp
qed

section \<open>The overall score of a reply without one\<close>

text \<open>
  Where the code computes the score. When the evaluator was built and the judge replied,
  the recovered JSON is a dictionary without \<open>overall_score\<close> whose \<open>metrics\<close> is a
  dictionary, after the missing ids of the rubric were filled in every metric entry is a
  dictionary whose \<open>score\<close> is an integer or absent (absent counts as 5), and the
  interpreter's division of the exact sum of these scores by their number returns a float:
  that float is the \<open>overall_score\<close> of the result (the integer 5 when there is no
  metric at all), and the metrics of the result are the filled-in ones. When the division
  raises, as it does for a sum too large for a float, the parse handler takes over.
\<close>

lemma evaluate_response_mean_score:
  assumes "evaluator_for selected_evaluation_model eval_provider eval_api_key eval_model base_url
             = Inr evaluator"
    and "invoke ex evaluator
           (question, response, ground_truth, retrieved_chunks, metrics, chat_history)
           = Inr evaluation"
    and "recover (loads ex) evaluation = Inr (JObj items)"
    and "''overall_score'' \<notin> set (map fst items)"
    and "map_of items ''metrics'' = Some (JObj m)"
    and "scores_of (map snd (fill_missing m (map fst metrics))) = Some scores"
    and "scores \<noteq> [] \<longrightarrow>
           int_true_divide ex (sum_list scores) (int (length scores)) = Inr ratio"
  shows "field ''overall_score''
           (evaluate_response ex selected_evaluation_model question response ground_truth
              retrieved_chunks eval_api_key metrics chat_history eval_provider eval_model base_url)
           = Some (if scores = [] then JInt 5 else JFloat ratio)
       \<and> field ''metrics''
           (evaluate_response ex selected_evaluation_model question response ground_truth
              retrieved_chunks eval_api_key metrics chat_history eval_provider eval_model base_url)
           = Some (JObj (fill_missing m (map fst metrics)))"
proof -
  let ?ft = "fault_text ex"
  let ?cm = "fill_missing m (map fst metrics)"
  let ?items1 = "AList.update ''metrics'' (JObj ?cm) items"
  let ?v = "if scores = [] then JInt 5 else JFloat ratio"
  let ?items2 = "AList.update ''overall_score'' ?v ?items1"
  have s1: "ensure_metrics ?ft (map fst metrics) (JObj items) = Inr (JObj ?items1)"
    by (rule ensure_metrics_fill[OF assms(5)])
  have notin: "''overall_score'' \<notin> set (map fst ?items1)"
    using assms(4) by (simp add: dom_update)
  from scores_sum[OF assms(6), of ?ft "float_sum ex"] obtain js where
    js: "metric_scores ?ft (map snd ?cm) = Inr js" "length js = length (map snd ?cm)"
      "\<forall>acc. py_sum ?ft (float_sum ex) acc js = Inr (JInt (acc + sum_list scores))" by blast
  from scores_of_length[OF assms(6)] have len: "length scores = length ?cm" by simp
  have avg: "average_score ex js = Inr ?v"
  proof (cases "js = []")
    case True
    with js(2) len show ?thesis by (simp add: average_score_def)
  next
    case False
    with js(2) len have n: "scores \<noteq> []" by auto
    with assms(7) have "int_true_divide ex (sum_list scores) (int (length scores))
        = Inr ratio" by simp
    with False n js(2,3) len show ?thesis
      by (simp add: average_score_def true_divide_def)
  qed
  have m1: "map_of ?items1 ''metrics'' = Some (JObj ?cm)" by (simp add: update_conv')
  have s2: "ensure_overall_score ex (JObj ?items1) = Inr (JObj ?items2)"
    using notin m1 js(1) avg
    by (simp add: ensure_overall_score_def Let_def py_in_def py_get_def py_values_def
          py_setitem_def)
  from ensure_text_total obtain d3 where
    s3: "ensure_text ?ft ''summary'' ''Evaluation completed with parsing issues'' (JObj ?items2)
           = Inr d3" by blast
  have f2: "field ''overall_score'' (JObj ?items2) = Some ?v"
    "field ''metrics'' (JObj ?items2) = Some (JObj ?cm)"
    by (simp_all add: update_conv')
  have f3: "field ''overall_score'' d3 = Some ?v" "field ''metrics'' d3 = Some (JObj ?cm)"
    using ensure_text_field[OF s3] f2 by blast+
  from f3(1) obtain items3 where d3: "d3 = JObj items3" by (cases d3) simp_all
  from ensure_text_total obtain d4 where
    s4: "ensure_text ?ft ''recommendations'' ''Review the raw response for complete details'' d3
           = Inr d4" unfolding d3 by blast
  have f4: "field ''overall_score'' d4 = Some ?v" "field ''metrics'' d4 = Some (JObj ?cm)"
    using ensure_text_field[OF s4] f3 by blast+
  have "complete ex (map fst metrics) (JObj items) = Inr d4"
    using s1 s2 s3 s4 by (simp add: complete_def Let_def)
  with assms(3) have "parse_evaluation ex metrics evaluation = d4"
    by (simp add: parse_evaluation_def parse_evaluation_try_def)
  with evaluate_response_reply[OF assms(1,2)] f4 show ?thesis by simp
qed

lemma evaluate_response_division_fault:
  assumes "evaluator_for selected_evaluation_model eval_provider eval_api_key eval_model base_url
             = Inr evaluator"
    and "invoke ex evaluator
           (question, response, ground_truth, retrieved_chunks, metrics, chat_history)
           = Inr evaluation"
    and "recover (loads ex) evaluation = Inr (JObj items)"
    and "''overall_score'' \<notin> set (map fst items)"
    and "map_of items ''metrics'' = Some (JObj m)"
    and "scores_of (map snd (fill_missing m (map fst metrics))) = Some scores"
    and "scores \<noteq> []"
    and "int_true_divide ex (sum_list scores) (int (length scores)) = Inl e"
  shows "evaluate_response ex selected_evaluation_model question response ground_truth
           retrieved_chunks eval_api_key metrics chat_history eval_provider eval_model base_url
         = parse_failure metrics e"
proof -
  let ?ft = "fault_text ex"
  let ?cm = "fill_missing m (map fst metrics)"
  let ?items1 = "AList.update ''metrics'' (JObj ?cm) items"
  have s1: "ensure_metrics ?ft (map fst metrics) (JObj items) = Inr (JObj ?items1)"
    by (rule ensure_metrics_fill[OF assms(5)])
  have notin: "''overall_score'' \<notin> set (map fst ?items1)"
    using assms(4) by (simp add: dom_update)
  from scores_sum[OF assms(6), of ?ft "float_sum ex"] obtain js where
    js: "metric_scores ?ft (map snd ?cm) = Inr js" "length js = length (map snd ?cm)"
      "\<forall>acc. py_sum ?ft (float_sum ex) acc js = Inr (JInt (acc + sum_list scores))" by blast
  from scores_of_length[OF assms(6)] have len: "length scores = length ?cm" by simp
  with js(2) assms(7) have "js \<noteq> []" by auto
  with js(2,3) len assms(8) have avg: "average_score ex js = Inl e"
    by (simp add: average_score_def true_divide_def)
  have m1: "map_of ?items1 ''metrics'' = Some (JObj ?cm)" by (simp add: update_conv')
  have "ensure_overall_score ex (JObj ?items1) = Inl e"
    using notin m1 js(1) avg
    by (simp add: ensure_overall_score_def Let_def py_in_def py_get_def py_values_def)
  with s1 have "complete ex (map fst metrics) (JObj items) = Inl e"
    by (simp add: complete_def Let_def)
  with assms(3) have "parse_evaluation ex metrics evaluation = parse_failure metrics e"
    by (simp add: parse_evaluation_def parse_evaluation_try_def)
  with evaluate_response_reply[OF assms(1,2)] show ?thesis by simp
qed

text \<open>
  The example of the claim: for the rubric \<open>a\<close>, \<open>b\<close>, \<open>c\<close> and the reply that scores
  \<open>a\<close> 9 and \<open>b\<close> 7, the metric \<open>c\<close> is filled with 5 and the overall score is the float
  7, as \<open>(9 + 7 + 5) / 3\<close> is.
\<close>

lemma evaluate_response_mean_score_instance:
  "field ''overall_score'' (evaluate_response
        (judge_fixture (decoder_table [(reply_two_scores, JObj parsed_two_scores)]) (Inr reply_two_scores))
        None ''What is 2+2?'' ''4'' ''4'' [] ''sk-test'' rubric_abc []
        ''Claude'' ''claude-sonnet-4-20250514'' None) = Some (JFloat (Finite 7))
   \<and> metric_of (evaluate_response
        (judge_fixture (decoder_table [(reply_two_scores, JObj parsed_two_scores)]) (Inr reply_two_scores))
        None ''What is 2+2?'' ''4'' ''4'' [] ''sk-test'' rubric_abc []
        ''Claude'' ''claude-sonnet-4-20250514'' None) ''c''
       = Some (JObj [(''score'', JInt 5),
                     (''explanation'', JStr ''Metric not evaluated or parsing failed'')])"
  by code_simp

text \<open>
  C3, at the input where the code departs from it. The reply \<open>{"summary": "fine"}\<close>
  parses, by the brace span, to a dictionary without \<open>overall_score\<close>. For the rubric
  with the one id \<open>a\<close>, schema completion would give \<open>a\<close> the score 5 and the mean
  would be 5. The code reads the metrics with \<open>.get('metrics', {})\<close> and then assigns
  into \<open>evaluation_dict['metrics']\<close>, which is not there: the result is the one of the
  parse handler, with \<open>overall_score\<close> 0 and \<open>a\<close> scored 0.
\<close>

theorem evaluate_response_summary_only:
  "recover (decoder_table [(reply_summary_only, JObj [(''summary'', JStr ''fine'')])]) reply_summary_only = Inr (JObj [(''summary'', JStr ''fine'')])
   \<and> field ''overall_score'' (JObj [(''summary'', JStr ''fine'')]) = None
   \<and> field ''overall_score'' (evaluate_response
        (judge_fixture (decoder_table [(reply_summary_only, JObj [(''summary'', JStr ''fine'')])]) (Inr reply_summary_only))
        None ''What is 2+2?'' ''4'' ''4'' [] ''sk-test'' [(''a'', \<lparr>name = ''A'', description = ''first''\<rparr>)] []
        ''Claude'' ''claude-sonnet-4-20250514'' None) = Some (JInt 0)
   \<and> metric_of (evaluate_response
        (judge_fixture (decoder_table [(reply_summary_only, JObj [(''summary'', JStr ''fine'')])]) (Inr reply_summary_only))
        None ''What is 2+2?'' ''4'' ''4'' [] ''sk-test'' [(''a'', \<lparr>name = ''A'', description = ''first''\<rparr>)] []
        ''Claude'' ''claude-sonnet-4-20250514'' None) ''a''
       = Some (JObj [(''score'', JInt 0),
                     (''explanation'',
                      JStr (''Parse error: '' @ [CHR 0x27] @ ''metrics'' @ [CHR 0x27]))])"
  by code_simp

lemma evaluate_response_text_score_instance:
  "field ''overall_score'' (evaluate_response
        (judge_fixture (decoder_table [(reply_text_score, JObj [(''metrics'', JObj [(''a'', JObj [(''score'', JStr ''high''), (''explanation'', JStr ''x'')])])])]) (Inr reply_text_score))
        None ''What is 2+2?'' ''4'' ''4'' [] ''sk-test'' [(''a'', \<lparr>name = ''A'', description = ''first''\<rparr>)] []
        ''Claude'' ''claude-sonnet-4-20250514'' None) = Some (JInt 0)"
  by code_simp

section \<open>The memory of a fresh chain\<close>

lemma strip_empty_iff: "strip s = [] \<longleftrightarrow> (\<forall>c \<in> set s. is_space c)"
proof -
  have "strip s = [] \<longleftrightarrow> (\<forall>c \<in> set (dropWhile is_space s). is_space c)"
    by (simp add: strip_def dropWhile_eq_Nil_conv)
  also have "\<dots> \<longleftrightarrow> dropWhile is_space s = []"
  proof
    assume a: "\<forall>c \<in> set (dropWhile is_space s). is_space c"
    show "dropWhile is_space s = []"
    proof (rule ccontr)
      assume n: "dropWhile is_space s \<noteq> []"
      then have "\<not> is_space (hd (dropWhile is_space s))" by (rule hd_dropWhile)
      moreover from n have "hd (dropWhile is_space s) \<in> set (dropWhile is_space s)" by simp
      ultimately show False using a by blast
    qed
  next
    assume "dropWhile is_space s = []"
    then have "set (dropWhile is_space s) = {}" by (simp only: set_empty)
    then show "\<forall>c \<in> set (dropWhile is_space s). is_space c" by (metis empty_iff)
  qed
  also have "\<dots> \<longleftrightarrow> (\<forall>c \<in> set s. is_space c)" by (simp add: dropWhile_eq_Nil_conv)
  finally show ?thesis .
qed

text \<open>
  C9. When the seed \<open>chat_history_str\<close> has a character that is not whitespace, the memory
  of the chain \<open>create_rag_chain\<close> builds holds exactly one exchange: the user turn
  \<open>Previous conversation context\<close> and the seed as the assistant's turn. When the seed is
  empty or whitespace only, the memory holds no message. In every case it holds at most
  these two messages.
\<close>

theorem create_rag_chain_memory:
  "((\<exists>c \<in> set chat_history_str. \<not> is_space c) \<longrightarrow>
      chat_memory (create_rag_chain llm vectorstore num_chunks chat_history_str)
        = [HumanMessage ''Previous conversation context'', AIMessage chat_history_str])
   \<and> ((\<forall>c \<in> set chat_history_str. is_space c) \<longrightarrow>
      chat_memory (create_rag_chain llm vectorstore num_chunks chat_history_str) = [])
   \<and> length (chat_memory (create_rag_chain llm vectorstore num_chunks chat_history_str)) \<le> 2"
proof -
  have "chat_history_str \<noteq> [] \<and> strip chat_history_str \<noteq> []
        \<longleftrightarrow> (\<exists>c \<in> set chat_history_str. \<not> is_space c)"
    using strip_empty_iff[of chat_history_str] by auto
  then show ?thesis by (auto simp: create_rag_chain_def)
qed

theorem create_rag_chain_memory_witness:
  "chat_memory (create_rag_chain () () 4 ''User: hi. Assistant: hello.'')
       = [HumanMessage ''Previous conversation context'', AIMessage ''User: hi. Assistant: hello.'']
   \<and> chat_memory (create_rag_chain () () 4 '' \<newline> '') = []"
proof -
  have a: "\<exists>c \<in> set ''User: hi. Assistant: hello.''. \<not> is_space c" by code_simp
  have b: "\<forall>c \<in> set '' \<newline> ''. is_space c" by code_simp
  from create_rag_chain_memory [of "''User: hi. Assistant: hello.''" "()" "()" 4]
       create_rag_chain_memory [of "'' \<newline> ''" "()" "()" 4] a b
  show ?thesis by blast
qed

section \<open>Adding a custom metric\<close>

lemma add_metric_rejects_custom_duplicate:
  "metric_name \<noteq> [] \<Longrightarrow> metric_description \<noteq> [] \<Longrightarrow>
   metric_id_of metric_name \<in> set (map cm_id custom_metrics) \<Longrightarrow>
   add_metric custom_metrics metric_name metric_description = (AlreadyExists, custom_metrics)"
  by (simp add: add_metric_def)

lemma add_metric_second_task_completion:
  "add_metric (snd (add_metric [] ''Task Completion'' ''first'')) ''task-completion'' ''second''
     = (AlreadyExists,
        [\<lparr>cm_id = ''task_completion'', cm_name = ''Task Completion'', cm_description = ''first''\<rparr>])"
  by code_simp

text \<open>
  C7, at the input where the code departs from it. With no custom metric registered, the
  form accepts the name \<open>Task Completion\<close>: its id \<open>task_completion\<close> is compared with the
  ids of the custom metrics only, though it is the id of a built-in metric. The rubric
  \<open>render_run_eval_tab\<close> then builds has the built-in entry for that id overwritten by the
  custom one, and as many entries as the built-in table alone.
\<close>

theorem add_metric_builtin_collision:
  "add_metric [] ''Task Completion'' ''Whether the task was done''
     = (Added,
        [\<lparr>cm_id = ''task_completion'', cm_name = ''Task Completion'',
          cm_description = ''Whether the task was done''\<rparr>])
   \<and> ''task_completion'' \<in> set (map fst DEFAULT_METRICS)
   \<and> map_of (all_metrics
               [\<lparr>cm_id = ''task_completion'', cm_name = ''Task Completion'',
                 cm_description = ''Whether the task was done''\<rparr>]) ''task_completion''
       = Some \<lparr>name = ''Task Completion'', description = ''Whether the task was done''\<rparr>
   \<and> length (all_metrics
               [\<lparr>cm_id = ''task_completion'', cm_name = ''Task Completion'',
                 cm_description = ''Whether the task was done''\<rparr>]) = length DEFAULT_METRICS"
  by code_simp

section \<open>What the patterns select, and the loop over them\<close>

lemma split_at_first_sound:
  "split_at_first needle s = Some (before, after) \<Longrightarrow> s = before @ needle @ after"
proof (induction s arbitrary: before)
  case Nil
  then show ?case by (simp split: if_splits)
next
  case (Cons c cs)
  show ?case
  proof (cases "starts_with needle (c # cs)")
    case True
    with Cons.prems have "before = []" "after = drop (length needle) (c # cs)" by simp_all
    moreover from True have "take (length needle) (c # cs) = needle" by (simp add: starts_with_def)
    ultimately show ?thesis by (metis append_Nil append_take_drop_id)
  next
    case False
    with Cons.prems obtain b where "split_at_first needle cs = Some (b, after)" "before = c # b"
      by (auto split: option.splits)
    with Cons.IH[of b] show ?thesis by simp
  qed
qed

lemma lazy_until_sound:
  "lazy_until lit s = Some body \<Longrightarrow> \<exists>post. s = body @ lit @ post"
  by (auto simp: lazy_until_def dest: split_at_first_sound)

lemma upto_last_None: "upto_last ch cs = None \<longleftrightarrow> ch \<notin> set cs"
  by (induction cs) (auto split: option.splits)

lemma upto_last_sound:
  "upto_last ch cs = Some r \<Longrightarrow> \<exists>post. cs = r @ post \<and> ch \<notin> set post \<and> r \<noteq> [] \<and> last r = ch"
proof (induction cs arbitrary: r)
  case Nil
  then show ?case by simp
next
  case (Cons c cs)
  show ?case
  proof (cases "upto_last ch cs")
    case None
    with Cons.prems have "c = ch" "r = [c]" by (simp_all split: if_splits)
    with None show ?thesis by (simp add: upto_last_None)
  next
    case (Some r')
    with Cons.prems have r: "r = c # r'" by simp
    from Cons.IH[OF Some] obtain post where "cs = r' @ post" "ch \<notin> set post" "r' \<noteq> []" "last r' = ch"
      by blast
    with r show ?thesis by simp
  qed
qed

lemma re_search_RawObject_sound:
  "re_search RawObject s = Some g \<Longrightarrow>
   \<exists>pre post. s = pre @ g @ post \<and> CHR ''{'' \<notin> set pre \<and> CHR ''}'' \<notin> set post
              \<and> hd g = CHR ''{'' \<and> last g = CHR ''}''"
proof (induction s)
  case Nil
  then show ?case by simp
next
  case (Cons c cs)
  show ?case
  proof (cases "match_at RawObject (c # cs)")
    case (Some g')
    with Cons.prems have g: "g' = g" by simp
    from Some obtain r where c: "c = CHR ''{''" and r: "upto_last CHR ''}'' cs = Some r" and g': "g' = c # r"
      by (auto split: if_splits)
    from upto_last_sound[OF r] obtain post where "cs = r @ post" "CHR ''}'' \<notin> set post" "r \<noteq> []"
      "last r = CHR ''}''" by blast
    with c g g' have "c # cs = [] @ g @ post \<and> CHR ''{'' \<notin> set [] \<and> CHR ''}'' \<notin> set post
              \<and> hd g = CHR ''{'' \<and> last g = CHR ''}''" by auto
    then show ?thesis by blast
  next
    case None
    with Cons.prems have s: "re_search RawObject cs = Some g" by simp
    from Cons.IH[OF s] obtain pre post where p: "cs = pre @ g @ post" "CHR ''{'' \<notin> set pre"
      "CHR ''}'' \<notin> set post" "hd g = CHR ''{''" "last g = CHR ''}''" by blast
    have "g \<noteq> []"
    proof
      assume "g = []"
      with s show False
        by (induction cs) (auto split: option.splits if_splits)
    qed
    with p(1,5) have "CHR ''}'' \<in> set cs" by (metis in_set_conv_decomp append_butlast_last_id append.assoc append_Cons)
    then have "upto_last CHR ''}'' cs \<noteq> None" by (simp add: upto_last_None)
    with None have "c \<noteq> CHR ''{''" by (auto split: if_splits)
    with p have "c # cs = (c # pre) @ g @ post \<and> CHR ''{'' \<notin> set (c # pre) \<and> CHR ''}'' \<notin> set post
              \<and> hd g = CHR ''{'' \<and> last g = CHR ''}''" by auto
    then show ?thesis by blast
  qed
qed

lemma re_search_position:
  "re_search p s = Some g \<Longrightarrow> \<exists>pre t. s = pre @ t \<and> match_at p t = Some g"
proof (induction s)
  case Nil
  then have m: "match_at p [] = Some g" by simp
  show ?case
    by (rule exI[of _ "[]"], rule exI[of _ "[]"]) (simp add: m)
next
  case (Cons c cs)
  show ?case
  proof (cases "match_at p (c # cs)")
    case (Some g')
    with Cons.prems have m: "match_at p (c # cs) = Some g" by simp
    show ?thesis
      by (rule exI[of _ "[]"], rule exI[of _ "c # cs"]) (simp add: m)
  next
    case None
    with Cons.prems have "re_search p cs = Some g" by simp
    from Cons.IH[OF this] obtain pre t where pt: "cs = pre @ t" "match_at p t = Some g" by blast
    show ?thesis
      by (rule exI[of _ "c # pre"], rule exI[of _ t]) (simp add: pt)
  qed
qed

lemma starts_with_split: "starts_with lit s \<Longrightarrow> \<exists>rest. s = lit @ rest"
  unfolding starts_with_def by (metis append_take_drop_id)

lemma ws_newline_body_sound:
  "ws_newline_body s = Some g \<Longrightarrow>
   \<exists>ws post. s = ws @ ''\<newline>'' @ g @ ''\<newline>```'' @ post \<and> (\<forall>c \<in> set ws. is_space c)"
proof (induction s)
  case Nil
  then show ?case by simp
next
  case (Cons c cs)
  have sp: "is_space c"
  proof (rule ccontr)
    assume "\<not> is_space c"
    with Cons.prems show False by simp
  qed
  show ?case
  proof (cases "ws_newline_body cs")
    case (Some g')
    with Cons.prems sp have "ws_newline_body cs = Some g" by simp
    from Cons.IH[OF this] obtain ws post where w: "cs = ws @ ''\<newline>'' @ g @ ''\<newline>```'' @ post"
      "\<forall>c \<in> set ws. is_space c" by blast
    show ?thesis
      by (rule exI[of _ "c # ws"], rule exI[of _ post]) (simp add: w sp)
  next
    case None
    with Cons.prems sp have c: "c = CHR ''\<newline>''"
      by (cases "c = CHR ''\<newline>''") simp_all
    with Cons.prems sp None have l: "lazy_until ''\<newline>```'' cs = Some g" by simp
    from lazy_until_sound[OF l] obtain post where p: "cs = g @ ''\<newline>```'' @ post" by blast
    show ?thesis
      by (rule exI[of _ "[]"], rule exI[of _ post]) (simp add: c p)
  qed
qed

lemma re_search_FencedJsonNewline_sound:
  assumes "re_search FencedJsonNewline s = Some g"
  shows "\<exists>pre ws post. s = pre @ ''```json'' @ ws @ ''\<newline>'' @ g @ ''\<newline>```'' @ post
                     \<and> (\<forall>c \<in> set ws. is_space c)"
proof -
  from re_search_position[OF assms] obtain pre t where t: "s = pre @ t"
    "match_at FencedJsonNewline t = Some g" by blast
  have st: "starts_with ''```json'' t"
    using t(2) by (cases "starts_with ''```json'' t") simp_all
  with t(2) have b: "ws_newline_body (drop 7 t) = Some g" by simp
  from starts_with_split[OF st] obtain rest where r: "t = ''```json'' @ rest" by blast
  have "drop 7 t = rest" unfolding r by simp
  with b have "ws_newline_body rest = Some g" by simp
  from ws_newline_body_sound[OF this] obtain ws post where
    p: "rest = ws @ ''\<newline>'' @ g @ ''\<newline>```'' @ post" and w: "\<forall>c \<in> set ws. is_space c" by blast
  have "s = pre @ ''```json'' @ ws @ ''\<newline>'' @ g @ ''\<newline>```'' @ post"
    unfolding t(1) r p by simp
  with w show ?thesis
    by (intro exI[of _ pre] exI[of _ ws] exI[of _ post]) simp
qed

lemma re_search_FencedJson_sound:
  assumes "re_search FencedJson s = Some g"
  shows "\<exists>pre post. s = pre @ ''```json\<newline>'' @ g @ ''```'' @ post"
proof -
  from re_search_position[OF assms] obtain pre t where t: "s = pre @ t"
    "match_at FencedJson t = Some g" by blast
  have st: "starts_with ''```json\<newline>'' t"
    using t(2) by (cases "starts_with ''```json\<newline>'' t") simp_all
  with t(2) have b: "lazy_until ''```'' (drop 8 t) = Some g" by simp
  from starts_with_split[OF st] obtain rest where r: "t = ''```json\<newline>'' @ rest" by blast
  have "drop 8 t = rest" unfolding r by simp
  with b have "lazy_until ''```'' rest = Some g" by simp
  from lazy_until_sound[OF this] obtain post where p: "rest = g @ ''```'' @ post" by blast
  have "s = pre @ ''```json\<newline>'' @ g @ ''```'' @ post" unfolding t(1) r p by simp
  then show ?thesis
    by (intro exI[of _ pre] exI[of _ post])
qed

lemma re_search_FencedPlain_sound:
  assumes "re_search FencedPlain s = Some g"
  shows "\<exists>pre post. s = pre @ ''```\<newline>'' @ g @ ''\<newline>```'' @ post"
proof -
  from re_search_position[OF assms] obtain pre t where t: "s = pre @ t"
    "match_at FencedPlain t = Some g" by blast
  have st: "starts_with ''```\<newline>'' t"
    using t(2) by (cases "starts_with ''```\<newline>'' t") simp_all
  with t(2) have b: "lazy_until ''\<newline>```'' (drop 4 t) = Some g" by simp
  from starts_with_split[OF st] obtain rest where r: "t = ''```\<newline>'' @ rest" by blast
  have "drop 4 t = rest" unfolding r by simp
  with b have "lazy_until ''\<newline>```'' rest = Some g" by simp
  from lazy_until_sound[OF this] obtain post where p: "rest = g @ ''\<newline>```'' @ post" by blast
  have "s = pre @ ''```\<newline>'' @ g @ ''\<newline>```'' @ post" unfolding t(1) r p by simp
  then show ?thesis
    by (intro exI[of _ pre] exI[of _ post])
qed


lemma match_patterns_skip:
  assumes "map_option (\<lambda>text. json_loads (strip text)) (re_search pattern evaluation) = None
           \<or> (\<exists>e. map_option (\<lambda>text. json_loads (strip text)) (re_search pattern evaluation)
                     = Some (Inl e) \<and> is_json_decode_error e)"
  shows "match_patterns json_loads (pattern # patterns) evaluation
           = match_patterns json_loads patterns evaluation"
  using assms by (cases "re_search pattern evaluation") auto

lemma match_patterns_hit:
  assumes "map_option (\<lambda>text. json_loads (strip text)) (re_search pattern evaluation)
             = Some (Inr v)"
  shows "match_patterns json_loads (pattern # patterns) evaluation = Inr v"
  using assms by (cases "re_search pattern evaluation") auto

lemma recover_of_patterns:
  "match_patterns json_loads json_patterns evaluation = Inr v \<Longrightarrow> v \<noteq> JNull \<Longrightarrow>
   recover json_loads evaluation = Inr v"
  by (simp add: recover_def)

lemma recover_of_whole:
  "match_patterns json_loads json_patterns evaluation = Inr JNull \<Longrightarrow>
   json_loads (strip evaluation) = Inr v \<Longrightarrow> recover json_loads evaluation = Inr v"
  by (simp add: recover_def)

lemma recover_first_success_aux:
  assumes "k < length (strategy_outcomes json_loads evaluation)"
    and "strategy_outcomes json_loads evaluation ! k = Some (Inr v)"
    and "\<forall>i<k. strategy_outcomes json_loads evaluation ! i = None
               \<or> (\<exists>e. strategy_outcomes json_loads evaluation ! i = Some (Inl e)
                        \<and> is_json_decode_error e)"
    and "v \<noteq> JNull \<or> k = 4"
  shows "recover json_loads evaluation = Inr v"
proof -
  let ?O = "\<lambda>p. map_option (\<lambda>text. json_loads (strip text)) (re_search p evaluation)"
  have o: "strategy_outcomes json_loads evaluation
             = [?O FencedJsonNewline, ?O FencedJson, ?O FencedPlain, ?O RawObject,
                Some (json_loads (strip evaluation))]"
    by (simp add: strategy_outcomes_def strategy_texts_def)
  have f: "strategy_outcomes json_loads evaluation ! i = None
               \<or> (\<exists>e. strategy_outcomes json_loads evaluation ! i = Some (Inl e)
                        \<and> is_json_decode_error e)" if "i < k" for i
    using assms(3) that by blast
  from assms(1) o have "k < 5" by simp
  then consider "k = 0" | "k = 1" | "k = 2" | "k = 3" | "k = 4" by linarith
  then show ?thesis
  proof cases
    case 1
    with assms(2) o have "?O FencedJsonNewline = Some (Inr v)" by simp
    then have "match_patterns json_loads json_patterns evaluation = Inr v"
      unfolding json_patterns_def by (rule match_patterns_hit)
    with assms(4) 1 show ?thesis by (simp add: recover_of_patterns)
  next
    case 2
    from f[of 0] 2 o have s0: "?O FencedJsonNewline = None
        \<or> (\<exists>e. ?O FencedJsonNewline = Some (Inl e) \<and> is_json_decode_error e)" by simp
    from assms(2) o 2 have "?O FencedJson = Some (Inr v)" by simp
    then have "match_patterns json_loads [FencedJson, FencedPlain, RawObject] evaluation = Inr v"
      by (rule match_patterns_hit)
    then have "match_patterns json_loads json_patterns evaluation = Inr v"
      unfolding json_patterns_def by (simp only: match_patterns_skip[OF s0])
    with assms(4) 2 show ?thesis by (simp add: recover_of_patterns)
  next
    case 3
    from f[of 0] 3 o have s0: "?O FencedJsonNewline = None
        \<or> (\<exists>e. ?O FencedJsonNewline = Some (Inl e) \<and> is_json_decode_error e)" by simp
    from f[of 1] 3 o have s1: "?O FencedJson = None
        \<or> (\<exists>e. ?O FencedJson = Some (Inl e) \<and> is_json_decode_error e)" by simp
    from assms(2) o 3 have "?O FencedPlain = Some (Inr v)" by simp
    then have "match_patterns json_loads [FencedPlain, RawObject] evaluation = Inr v"
      by (rule match_patterns_hit)
    then have "match_patterns json_loads json_patterns evaluation = Inr v"
      unfolding json_patterns_def
      by (simp only: match_patterns_skip[OF s0] match_patterns_skip[OF s1])
    with assms(4) 3 show ?thesis by (simp add: recover_of_patterns)
  next
    case 4
    from f[of 0] 4 o have s0: "?O FencedJsonNewline = None
        \<or> (\<exists>e. ?O FencedJsonNewline = Some (Inl e) \<and> is_json_decode_error e)" by simp
    from f[of 1] 4 o have s1: "?O FencedJson = None
        \<or> (\<exists>e. ?O FencedJson = Some (Inl e) \<and> is_json_decode_error e)" by simp
    from f[of 2] 4 o have s2: "?O FencedPlain = None
        \<or> (\<exists>e. ?O FencedPlain = Some (Inl e) \<and> is_json_decode_error e)" by simp
    from assms(2) o 4 have "?O RawObject = Some (Inr v)" by simp
    then have "match_patterns json_loads [RawObject] evaluation = Inr v"
      by (rule match_patterns_hit)
    then have "match_patterns json_loads json_patterns evaluation = Inr v"
      unfolding json_patterns_def
      by (simp only: match_patterns_skip[OF s0] match_patterns_skip[OF s1]
            match_patterns_skip[OF s2])
    with assms(4) 4 show ?thesis by (simp add: recover_of_patterns)
  next
    case 5
    from f[of 0] 5 o have s0: "?O FencedJsonNewline = None
        \<or> (\<exists>e. ?O FencedJsonNewline = Some (Inl e) \<and> is_json_decode_error e)" by simp
    from f[of 1] 5 o have s1: "?O FencedJson = None
        \<or> (\<exists>e. ?O FencedJson = Some (Inl e) \<and> is_json_decode_error e)" by simp
    from f[of 2] 5 o have s2: "?O FencedPlain = None
        \<or> (\<exists>e. ?O FencedPlain = Some (Inl e) \<and> is_json_decode_error e)" by simp
    from f[of 3] 5 o have s3: "?O RawObject = None
        \<or> (\<exists>e. ?O RawObject = Some (Inl e) \<and> is_json_decode_error e)" by simp
    from assms(2) o 5 have w: "json_loads (strip evaluation) = Inr v" by simp
    have "match_patterns json_loads json_patterns evaluation
            = match_patterns json_loads [] evaluation"
      unfolding json_patterns_def
      by (simp only: match_patterns_skip[OF s0] match_patterns_skip[OF s1]
            match_patterns_skip[OF s2] match_patterns_skip[OF s3])
    then have "match_patterns json_loads json_patterns evaluation = Inr JNull" by simp
    from recover_of_whole[OF this w] show ?thesis .
  qed
qed

section \<open>The order of the recovery strategies\<close>

text \<open>
  The cascade, for values other than \<open>null\<close>. The strategies are tried on the reply in
  this order: the fence tagged \<open>json\<close> (first its pattern with a newline before the
  closing fence, then the one without), the fence without a tag, the brace span, the whole
  reply (stripped). When strategy \<open>k\<close> is the first whose text \<open>json.loads\<close> accepts,
  every earlier one either not matching or raising \<open>JSONDecodeError\<close>, and its value is
  not \<open>None\<close> or it is the last strategy, that value is what is recovered. The texts
  are: for the fences the text between an opening fence and a closing fence, for the brace
  span the text from the first opening brace to the last closing brace of the reply, for
  the last strategy the reply itself.
\<close>

lemma recover_first_success:
  assumes "k < length (strategy_outcomes json_loads evaluation)"
    and "strategy_outcomes json_loads evaluation ! k = Some (Inr v)"
    and "\<forall>i<k. strategy_outcomes json_loads evaluation ! i = None
               \<or> (\<exists>e. strategy_outcomes json_loads evaluation ! i = Some (Inl e)
                        \<and> is_json_decode_error e)"
    and "v \<noteq> JNull \<or> k = 4"
  shows "recover json_loads evaluation = Inr v
       \<and> (\<forall>g. strategy_texts evaluation ! 0 = Some g \<longrightarrow>
             (\<exists>pre ws post.
                 evaluation = pre @ ''```json'' @ ws @ ''\<newline>'' @ g @ ''\<newline>```'' @ post
                 \<and> (\<forall>c \<in> set ws. is_space c)))
       \<and> (\<forall>g. strategy_texts evaluation ! 1 = Some g \<longrightarrow>
             (\<exists>pre post. evaluation = pre @ ''```json\<newline>'' @ g @ ''```'' @ post))
       \<and> (\<forall>g. strategy_texts evaluation ! 2 = Some g \<longrightarrow>
             (\<exists>pre post. evaluation = pre @ ''```\<newline>'' @ g @ ''\<newline>```'' @ post))
       \<and> (\<forall>g. strategy_texts evaluation ! 3 = Some g \<longrightarrow>
             (\<exists>pre post. evaluation = pre @ g @ post
                 \<and> CHR ''{'' \<notin> set pre \<and> CHR ''}'' \<notin> set post
                 \<and> hd g = CHR ''{'' \<and> last g = CHR ''}''))
       \<and> strategy_texts evaluation ! 4 = Some evaluation"
proof -
  have "recover json_loads evaluation = Inr v"
    using assms by (rule recover_first_success_aux)
  moreover have "\<forall>g. strategy_texts evaluation ! 0 = Some g \<longrightarrow>
             (\<exists>pre ws post.
                 evaluation = pre @ ''```json'' @ ws @ ''\<newline>'' @ g @ ''\<newline>```'' @ post
                 \<and> (\<forall>c \<in> set ws. is_space c))"
    using re_search_FencedJsonNewline_sound by (simp add: strategy_texts_def)
  moreover have "\<forall>g. strategy_texts evaluation ! 1 = Some g \<longrightarrow>
             (\<exists>pre post. evaluation = pre @ ''```json\<newline>'' @ g @ ''```'' @ post)"
    using re_search_FencedJson_sound by (simp add: strategy_texts_def)
  moreover have "\<forall>g. strategy_texts evaluation ! 2 = Some g \<longrightarrow>
             (\<exists>pre post. evaluation = pre @ ''```\<newline>'' @ g @ ''\<newline>```'' @ post)"
    using re_search_FencedPlain_sound by (simp add: strategy_texts_def)
  moreover have "\<forall>g. strategy_texts evaluation ! 3 = Some g \<longrightarrow>
             (\<exists>pre post. evaluation = pre @ g @ post
                 \<and> CHR ''{'' \<notin> set pre \<and> CHR ''}'' \<notin> set post
                 \<and> hd g = CHR ''{'' \<and> last g = CHR ''}'')"
    using re_search_RawObject_sound by (simp add: strategy_texts_def)
  moreover have "strategy_texts evaluation ! 4 = Some evaluation"
    by (simp add: strategy_texts_def)
  ultimately show ?thesis by (intro conjI)
qed

lemma recover_first_success_instance:
  \<open>strategy_outcomes (decoder_table [(''{"overall_score": 9}'', JObj [(''overall_score'', JInt 9)])]) ''```json\<newline>not json\<newline>``` {"overall_score": 9}''
     = [Some (Inl (JSONDecodeError ''Expecting value'')),
        Some (Inl (JSONDecodeError ''Expecting value'')),
        None,
        Some (Inr (JObj [(''overall_score'', JInt 9)])),
        Some (Inl (JSONDecodeError ''Expecting value''))]
   \<and> recover (decoder_table [(''{"overall_score": 9}'', JObj [(''overall_score'', JInt 9)])]) ''```json\<newline>not json\<newline>``` {"overall_score": 9}'' = Inr (JObj [(''overall_score'', JInt 9)])\<close>
proof -
  have l: \<open>strategy_outcomes (decoder_table [(''{"overall_score": 9}'', JObj [(''overall_score'', JInt 9)])]) ''```json\<newline>not json\<newline>``` {"overall_score": 9}''
     = [Some (Inl (JSONDecodeError ''Expecting value'')),
        Some (Inl (JSONDecodeError ''Expecting value'')),
        None,
        Some (Inr (JObj [(''overall_score'', JInt 9)])),
        Some (Inl (JSONDecodeError ''Expecting value''))]\<close>
    by code_simp
  have h1: \<open>3 < length (strategy_outcomes (decoder_table [(''{"overall_score": 9}'', JObj [(''overall_score'', JInt 9)])]) ''```json\<newline>not json\<newline>``` {"overall_score": 9}'')\<close>
    by (simp add: l)
  have h2: \<open>strategy_outcomes (decoder_table [(''{"overall_score": 9}'', JObj [(''overall_score'', JInt 9)])]) ''```json\<newline>not json\<newline>``` {"overall_score": 9}'' ! 3
              = Some (Inr (JObj [(''overall_score'', JInt 9)]))\<close>
    by (simp add: l)
  have h3: \<open>\<forall>i<3. strategy_outcomes (decoder_table [(''{"overall_score": 9}'', JObj [(''overall_score'', JInt 9)])]) ''```json\<newline>not json\<newline>``` {"overall_score": 9}'' ! i = None
               \<or> (\<exists>e. strategy_outcomes (decoder_table [(''{"overall_score": 9}'', JObj [(''overall_score'', JInt 9)])]) ''```json\<newline>not json\<newline>``` {"overall_score": 9}'' ! i = Some (Inl e)
                        \<and> is_json_decode_error e)\<close>
    by (auto simp: l less_Suc_eq numeral_3_eq_3)
  have h4: "JObj [(''overall_score'', JInt 9)] \<noteq> JNull \<or> (3::nat) = 4" by simp
  from recover_first_success [OF h1 h2 h3 h4] l show ?thesis by blast
qed

text \<open>
  C2, at the input where the code departs from it. In the reply below the fence tagged
  \<open>json\<close> holds the text \<open>null\<close>. It is the first strategy and \<open>json.loads\<close> accepts
  its text, so by the claim it wins. The loop does stop there ("Successfully parsed, exit
  loop"), but the value is \<open>None\<close>, which is also what \<open>evaluation_dict\<close> holds when
  no pattern worked: the test \<open>evaluation_dict is None\<close> sends the code on to the whole
  reply, which is not JSON, and what is recovered is the default dictionary of the case
  where every strategy fails.
\<close>

theorem recover_null_in_fence:
  "strategy_texts ''```json\<newline>null\<newline>```'' ! 0 = Some ''null''
   \<and> strategy_outcomes (decoder_table [(''null'', JNull)]) ''```json\<newline>null\<newline>```'' ! 0 = Some (Inr JNull)
   \<and> recover (decoder_table [(''null'', JNull)]) ''```json\<newline>null\<newline>```'' = Inr (default_evaluation ''```json\<newline>null\<newline>```'')
   \<and> default_evaluation ''```json\<newline>null\<newline>```'' \<noteq> JNull"
  by code_simp

text \<open>
  With a brace span after that fence, \<open>json.loads\<close> accepts the texts of the first and
  of the brace-span strategy; neither value is recovered. And where the whole reply is
  \<open>null\<close>, the last strategy does keep that value.
\<close>

lemma recover_null_then_object:
  \<open>strategy_outcomes (decoder_table [(''null'', JNull), (''{"overall_score": 9}'', JObj [(''overall_score'', JInt 9)])]) ''```json\<newline>null\<newline>``` {"overall_score": 9}'' ! 0 = Some (Inr JNull)
   \<and> strategy_outcomes (decoder_table [(''null'', JNull), (''{"overall_score": 9}'', JObj [(''overall_score'', JInt 9)])]) ''```json\<newline>null\<newline>``` {"overall_score": 9}'' ! 3
       = Some (Inr (JObj [(''overall_score'', JInt 9)]))
   \<and> recover (decoder_table [(''null'', JNull), (''{"overall_score": 9}'', JObj [(''overall_score'', JInt 9)])]) ''```json\<newline>null\<newline>``` {"overall_score": 9}'' = Inr (default_evaluation ''```json\<newline>null\<newline>``` {"overall_score": 9}'')\<close>
  by code_simp

lemma recover_null_whole:
  "recover (decoder_table [(''null'', JNull)]) ''null'' = Inr JNull"
  by code_simp

section \<open>Models with a fixed temperature\<close>

lemma any_marker_inI:
  "marker \<in> set markers \<Longrightarrow> contains marker (lower model_id) \<Longrightarrow> any_marker_in markers model_id"
  by (auto simp: any_marker_in_def list_ex_iff)

text \<open>
  C6, as amended. For every model identifier that contains one of the markers
  \<open>gpt-5\<close>, \<open>o1-preview\<close>, \<open>o1-mini\<close>, \<open>o1\<close> when lower-cased:
  for generation with the provider OpenAI or DeepInfra, \<open>get_llm_provider\<close> returns a
  client with temperature 1 whatever temperature is requested, and passes no token limit
  at all; for judging with a provider other than Claude, the evaluator, when
  \<open>evaluate_response\<close> builds one, has temperature 1 and the limit
  \<open>max_completion_tokens\<close> 4096 instead of \<open>max_tokens\<close>; and the marker test is the same
  function in the two roles.
\<close>

theorem fixed_temperature_models:
  assumes "marker \<in> set [''gpt-5'', ''o1-preview'', ''o1-mini'', ''o1'']"
    and "contains marker (lower model_id)"
  shows "(provider = ''OpenAI'' \<or> provider = ''DeepInfra'' \<longrightarrow>
            (\<exists>client. get_llm_provider selected_inference_model deepinfra_base_url provider
                         model_id api_key temperature = Inr client
                     \<and> arg_model_name client = model_id
                     \<and> arg_temperature client = 1
                     \<and> arg_token_limit client = None))
       \<and> (eval_provider \<noteq> ''Claude'' \<longrightarrow>
            evaluator_for selected_evaluation_model eval_provider eval_api_key model_id base_url
              = Inr evaluator \<longrightarrow>
            arg_model_name evaluator = model_id
            \<and> arg_temperature evaluator = 1
            \<and> arg_token_limit evaluator = Some (MaxCompletionTokens 4096))
       \<and> any_marker_in models_with_fixed_temperature = any_marker_in models_fixed_temp
       \<and> any_marker_in models_with_fixed_temperature
           = any_marker_in models_fixed_temp_and_completion_tokens"
proof -
  have g: "any_marker_in models_with_fixed_temperature model_id"
    using assms by (intro any_marker_inI) (simp_all add: models_with_fixed_temperature_def)
  have c: "any_marker_in models_fixed_temp model_id"
    using assms by (intro any_marker_inI) (simp_all add: models_fixed_temp_def)
  have j: "any_marker_in models_fixed_temp_and_completion_tokens model_id"
    using assms by (intro any_marker_inI) (simp_all add: models_fixed_temp_and_completion_tokens_def)
  have gen: "provider = ''OpenAI'' \<or> provider = ''DeepInfra'' \<longrightarrow>
            (\<exists>client. get_llm_provider selected_inference_model deepinfra_base_url provider
                         model_id api_key temperature = Inr client
                     \<and> arg_model_name client = model_id
                     \<and> arg_temperature client = 1
                     \<and> arg_token_limit client = None)"
    using g by (auto simp: get_llm_provider_def plain_client_def Let_def)
  have judge: "eval_provider \<noteq> ''Claude'' \<longrightarrow>
            evaluator_for selected_evaluation_model eval_provider eval_api_key model_id base_url
              = Inr evaluator \<longrightarrow>
            arg_model_name evaluator = model_id
            \<and> arg_temperature evaluator = 1
            \<and> arg_token_limit evaluator = Some (MaxCompletionTokens 4096)"
    using c j by (auto simp: evaluator_for_def Let_def split: option.splits if_splits)
  have same: "any_marker_in models_with_fixed_temperature = any_marker_in models_fixed_temp"
    "any_marker_in models_with_fixed_temperature
           = any_marker_in models_fixed_temp_and_completion_tokens"
    by (simp_all add: models_with_fixed_temperature_def models_fixed_temp_def
          models_fixed_temp_and_completion_tokens_def)
  from gen judge same show ?thesis by blast
qed

theorem fixed_temperature_models_witness:
  "contains ''o1'' (lower ''O1-Mini'')
   \<and> get_llm_provider None None ''OpenAI'' ''O1-Mini'' ''sk-x'' (3 / 10)
       = Inr (plain_client ChatOpenAI ''O1-Mini'' ''sk-x'' None 1)
   \<and> evaluator_for None ''OpenAI'' ''sk-x'' ''O1-Mini'' None
       = Inr \<lparr>arg_class = ChatOpenAI, arg_model_name = ''O1-Mini'', arg_api_key = ''sk-x'',
              arg_base_url = None, arg_temperature = 1, arg_max_retries = Some 2,
              arg_timeout = Some 360, arg_token_limit = Some (MaxCompletionTokens 4096)\<rparr>"
proof -
  have m: "''o1'' \<in> set [''gpt-5'', ''o1-preview'', ''o1-mini'', ''o1'']" by simp
  have c: "contains ''o1'' (lower ''O1-Mini'')" by code_simp
  have e: "evaluator_for None ''OpenAI'' ''sk-x'' ''O1-Mini'' None
       = Inr \<lparr>arg_class = ChatOpenAI, arg_model_name = ''O1-Mini'', arg_api_key = ''sk-x'',
              arg_base_url = None, arg_temperature = 1, arg_max_retries = Some 2,
              arg_timeout = Some 360, arg_token_limit = Some (MaxCompletionTokens 4096)\<rparr>"
    by code_simp
  note t = fixed_temperature_models [OF m c, where provider = "''OpenAI''"
      and selected_inference_model = None and deepinfra_base_url = None and api_key = "''sk-x''"
      and temperature = "3 / 10" and eval_provider = "''OpenAI''"
      and selected_evaluation_model = None and eval_api_key = "''sk-x''" and base_url = None]
  from t obtain client where g: "get_llm_provider None None ''OpenAI'' ''O1-Mini'' ''sk-x'' (3 / 10)
      = Inr client" "arg_model_name client = ''O1-Mini''" "arg_temperature client = 1"
      "arg_token_limit client = None"
    by blast
  have "get_llm_provider None None ''OpenAI'' ''O1-Mini'' ''sk-x'' (3 / 10)
      = Inr (plain_client ChatOpenAI ''O1-Mini'' ''sk-x'' None 1)"
    using g c by (simp add: get_llm_provider_def any_marker_in_def models_with_fixed_temperature_def)
  with c e show ?thesis by simp
qed

text \<open>
  C6 as stated fails for generation: for the provider OpenAI and the model \<open>o1-mini\<close>
  the client gets temperature 1 but no completion-token limit; and for a custom inference
  model named \<open>gpt-5\<close> saved without the fixed-temperature box ticked, the client gets the
  entry's temperature 0.3, since that branch reads the flag and does not test the name.
\<close>

theorem fixed_temperature_models_counterexample:
  "get_llm_provider None None ''OpenAI'' ''o1-mini'' ''sk-x'' (3 / 10)
     = Inr (plain_client ChatOpenAI ''o1-mini'' ''sk-x'' None 1)
   \<and> arg_token_limit (plain_client ChatOpenAI ''o1-mini'' ''sk-x'' None 1) = None
   \<and> get_llm_provider
        (Some \<lparr>entry_name = Some ''gpt-5'', entry_api_key = Some ''key'',
               entry_base_url = Some ''https://api.deepinfra.com/v1/openai'',
               entry_provider = Some ''DeepInfra'', entry_fixed_temperature = Some False,
               entry_temperature = Some (3 / 10)\<rparr>)
        None ''Custom Models'' ''gpt-5'' ''key'' (1 / 10)
     = Inr (plain_client ChatOpenAI ''gpt-5'' ''key''
              (Some ''https://api.deepinfra.com/v1/openai'') (3 / 10))
   \<and> arg_temperature (plain_client ChatOpenAI ''gpt-5'' ''key''
              (Some ''https://api.deepinfra.com/v1/openai'') (3 / 10)) \<noteq> 1"
  by code_simp

end
